theory Spec2Isabelle
  imports Complex_Main
begin

section \<open>Values, arrays and errors\<close>

text \<open>
  A floating-point cell is either NaN or a finite number. Finite numbers are kept exact:
  the narrowing to 32-bit floats done by the file format is not part of the model.
\<close>

datatype fval = NaN | Fin real

text \<open>
  A numpy array of rank 1 to 4: a 2-D array is the list of its rows, and so on.  The rank is
  part of the value, as it is in numpy.
\<close>

datatype ndarray =
    Arr1 "fval list"
  | Arr2 "fval list list"
  | Arr3 "fval list list list"
  | Arr4 "fval list list list list"

text \<open>What \<open>a[0]\<close> and \<open>a[-1]\<close> give: a scalar for a line, a sub-array otherwise.\<close>

datatype item = Scalar fval | Sub ndarray

text \<open>
  The exceptions of the program.  The first four are the names the specification gives to
  the failures of the array-file library; the others are Python's own.
\<close>

datatype error =
    MissingFileError
  | MissingVariableError
  | PathUnwritableError
  | DimensionMismatchError
  | AttributeError
  | TypeError
  | IndexError
  | ValueError
  | OverflowError

definition bind_err :: "error + 'a \<Rightarrow> ('a \<Rightarrow> error + 'b) \<Rightarrow> error + 'b" where
  "bind_err m k = (case m of Inl e \<Rightarrow> Inl e | Inr v \<Rightarrow> k v)"

text \<open>\<open>range(n)\<close>: empty when \<open>n\<close> is not positive.\<close>

definition range_py :: "int \<Rightarrow> nat list" where
  "range_py n = [0..<nat n]"

text \<open>
  A \<open>for\<close> loop over an index list.  The body may raise, which ends the loop; the second
  component counts the iterations that have run.
\<close>

fun for_loop :: "nat list \<Rightarrow> (nat \<Rightarrow> 's \<Rightarrow> error + 's) \<Rightarrow> 's \<times> nat \<Rightarrow> error + ('s \<times> nat)" where
  "for_loop [] body (s, k) = Inr (s, k)"
| "for_loop (i # idxs) body (s, k) =
     (case body i s of Inl e \<Rightarrow> Inl e | Inr s' \<Rightarrow> for_loop idxs body (s', Suc k))"

text \<open>\<open>a[0]\<close> and \<open>a[-1]\<close> on an attribute that may still be \<open>None\<close>.\<close>

fun first_item :: "ndarray option \<Rightarrow> error + item" where
  "first_item None = Inl TypeError"
| "first_item (Some (Arr1 xs)) = (if xs = [] then Inl IndexError else Inr (Scalar (hd xs)))"
| "first_item (Some (Arr2 xs)) = (if xs = [] then Inl IndexError else Inr (Sub (Arr1 (hd xs))))"
| "first_item (Some (Arr3 xs)) = (if xs = [] then Inl IndexError else Inr (Sub (Arr2 (hd xs))))"
| "first_item (Some (Arr4 xs)) = (if xs = [] then Inl IndexError else Inr (Sub (Arr3 (hd xs))))"

fun last_item :: "ndarray option \<Rightarrow> error + item" where
  "last_item None = Inl TypeError"
| "last_item (Some (Arr1 xs)) = (if xs = [] then Inl IndexError else Inr (Scalar (last xs)))"
| "last_item (Some (Arr2 xs)) = (if xs = [] then Inl IndexError else Inr (Sub (Arr1 (last xs))))"
| "last_item (Some (Arr3 xs)) = (if xs = [] then Inl IndexError else Inr (Sub (Arr2 (last xs))))"
| "last_item (Some (Arr4 xs)) = (if xs = [] then Inl IndexError else Inr (Sub (Arr3 (last xs))))"

text \<open>
  \<open>np.transpose\<close>: the axes reversed.  On a line it is the identity.  Only ranks 1 and 2
  occur as velocity fields; the higher ranks are left as they are, which the assignment
  that follows rejects in any case.
\<close>

definition transpose_rows :: "fval list list \<Rightarrow> fval list list" where
  "transpose_rows rows =
     (case rows of [] \<Rightarrow> []
      | r # _ \<Rightarrow> map (\<lambda>j. map (\<lambda>row. row ! j) rows) [0..<length r])"

fun np_transpose :: "ndarray \<Rightarrow> ndarray" where
  "np_transpose (Arr2 rows) = Arr2 (transpose_rows rows)"
| "np_transpose a = a"

section \<open>The array-file library\<close>

text \<open>
  Modelled from the spec: the array-file (NetCDF) library, an external collaborator that is
  not part of the source.  Its containers are modelled as far as the program uses them, on
  the five capabilities the specification lists: containers opened for reading or writing,
  named dimensions of fixed or unlimited length, named variables over dimensions, slices
  read and written by index, and metadata attached to a variable (\<open>valid_min\<close> and
  \<open>valid_max\<close>).  Its failures carry the names the specification gives them.
\<close>

datatype nctype = Float32 | Float64

record ncvar =
  var_type :: nctype
  var_dims :: "string list"
  var_data :: ndarray
  valid_min :: "item option"
  valid_max :: "item option"

record ncfile =
  dimensions :: "(string \<times> int option) list"
  variables :: "(string \<times> ncvar) list"

definition empty_dataset :: ncfile where
  "empty_dataset = \<lparr>dimensions = [], variables = []\<rparr>"

text \<open>The library's default fill value, \<open>9.969209968386869e36\<close>, in unwritten cells.\<close>

definition fill_value :: fval where
  "fill_value = Fin (15 * 2 ^ 119)"

text \<open>
  Modelled from the spec: \<open>createDimension(name, n)\<close>; \<open>None\<close> declares the unlimited
  dimension.  The size is recorded as it is passed; a negative one does not convert to the
  library's unsigned length.
\<close>

definition createDimension :: "string \<Rightarrow> int option \<Rightarrow> ncfile \<Rightarrow> error + ncfile" where
  "createDimension name n f =
     (case n of
        None \<Rightarrow> Inr (f\<lparr>dimensions := dimensions f @ [(name, None)]\<rparr>)
      | Some k \<Rightarrow>
          if k < 0 then Inl OverflowError
          else Inr (f\<lparr>dimensions := dimensions f @ [(name, Some k)]\<rparr>))"

text \<open>
  Modelled from the spec: the current length of a dimension; the unlimited one starts
  empty.  A variable is created full of fill values over the lengths of its dimensions.
\<close>

definition dim_len :: "ncfile \<Rightarrow> string \<Rightarrow> nat option" where
  "dim_len f name =
     (case map_of (dimensions f) name of
        None \<Rightarrow> None
      | Some None \<Rightarrow> Some 0
      | Some (Some k) \<Rightarrow> Some (nat k))"

fun fill_array :: "nat list \<Rightarrow> ndarray option" where
  "fill_array [a] = Some (Arr1 (replicate a fill_value))"
| "fill_array [a, b] = Some (Arr2 (replicate a (replicate b fill_value)))"
| "fill_array [a, b, c] = Some (Arr3 (replicate a (replicate b (replicate c fill_value))))"
| "fill_array [a, b, c, d] =
     Some (Arr4 (replicate a (replicate b (replicate c (replicate d fill_value)))))"
| "fill_array _ = None"

fun those_lens :: "nat option list \<Rightarrow> nat list option" where
  "those_lens [] = Some []"
| "those_lens (None # _) = None"
| "those_lens (Some n # ns) = (case those_lens ns of None \<Rightarrow> None | Some ms \<Rightarrow> Some (n # ms))"

text \<open>
  Modelled from the spec: \<open>createVariable(name, type, dims)\<close>, a variable of fill values
  over declared dimensions.
\<close>

definition createVariable :: "string \<Rightarrow> nctype \<Rightarrow> string list \<Rightarrow> ncfile \<Rightarrow> error + ncfile" where
  "createVariable name ty dims f =
     (case those_lens (map (dim_len f) dims) of
        None \<Rightarrow> Inl ValueError
      | Some lens \<Rightarrow>
          (case fill_array lens of
             None \<Rightarrow> Inl ValueError
           | Some a \<Rightarrow>
               Inr (f\<lparr>variables := variables f @
                      [(name, \<lparr>var_type = ty, var_dims = dims, var_data = a,
                                valid_min = None, valid_max = None\<rparr>)]\<rparr>)))"

text \<open>
  Modelled from the spec: \<open>dset[name]\<close>, the variable of that name; a name that the
  container does not have raises \<open>MissingVariableError\<close>.
\<close>

definition getvar :: "ncfile \<Rightarrow> string \<Rightarrow> error + ncvar" where
  "getvar f name =
     (case map_of (variables f) name of None \<Rightarrow> Inl MissingVariableError | Some v \<Rightarrow> Inr v)"

text \<open>A write through \<open>dset[name]\<close>: the variable is looked up, changed, and stored back.\<close>

definition put_var :: "string \<Rightarrow> ncvar \<Rightarrow> (string \<times> ncvar) list \<Rightarrow> (string \<times> ncvar) list" where
  "put_var name v vs = map (\<lambda>(n, u). if n = name then (n, v) else (n, u)) vs"

definition update_var :: "string \<Rightarrow> (ncvar \<Rightarrow> error + ncvar) \<Rightarrow> ncfile \<Rightarrow> error + ncfile" where
  "update_var name upd f =
     bind_err (getvar f name) (\<lambda>v.
     bind_err (upd v) (\<lambda>v'.
       Inr (f\<lparr>variables := put_var name v' (variables f)\<rparr>)))"

text \<open>
  Modelled from the spec: the slice assignment \<open>var[i, :] = v\<close> of the array-file library,
  which is not part of the source.  Here and in the three assignments that follow, a value
  whose shape disagrees with the slice it is assigned to is refused with
  \<open>DimensionMismatchError\<close>, and \<open>None\<close> is no array at all.
\<close>

definition set_row :: "nat \<Rightarrow> ndarray option \<Rightarrow> ncvar \<Rightarrow> error + ncvar" where
  "set_row i v var =
     (case var_data var of
        Arr2 rows \<Rightarrow>
          if \<not> i < length rows then Inl IndexError
          else (case v of
                  None \<Rightarrow> Inl TypeError
                | Some (Arr1 xs) \<Rightarrow>
                    if length xs = length (rows ! i)
                    then Inr (var\<lparr>var_data := Arr2 (rows[i := xs])\<rparr>)
                    else Inl DimensionMismatchError
                | Some _ \<Rightarrow> Inl DimensionMismatchError)
      | _ \<Rightarrow> Inl IndexError)"

text \<open>Modelled from the spec: the slice assignment \<open>var[:, j] = v\<close>.\<close>

definition set_col :: "nat \<Rightarrow> ndarray option \<Rightarrow> ncvar \<Rightarrow> error + ncvar" where
  "set_col j v var =
     (case var_data var of
        Arr2 rows \<Rightarrow>
          if \<exists>row \<in> set rows. \<not> j < length row then Inl IndexError
          else (case v of
                  None \<Rightarrow> Inl TypeError
                | Some (Arr1 xs) \<Rightarrow>
                    if length xs = length rows
                    then Inr (var\<lparr>var_data := Arr2 (map2 (\<lambda>row e. row[j := e]) rows xs)\<rparr>)
                    else Inl DimensionMismatchError
                | Some _ \<Rightarrow> Inl DimensionMismatchError)
      | _ \<Rightarrow> Inl IndexError)"

text \<open>
  Modelled from the spec: \<open>dset[name][:] = v\<close> on a 1-D variable.  Along the unlimited dimension the variable
  grows to the length of the value; along a fixed one the lengths must agree.
\<close>

definition set_all :: "string \<Rightarrow> fval list option \<Rightarrow> ncfile \<Rightarrow> error + ncfile" where
  "set_all name v f =
     update_var name (\<lambda>var.
       case var_data var of
         Arr1 old \<Rightarrow>
           (case v of
              None \<Rightarrow> Inl TypeError
            | Some xs \<Rightarrow>
                if map (map_of (dimensions f)) (var_dims var) = [Some None]
                then Inr (var\<lparr>var_data := Arr1 (xs @ drop (length xs) old)\<rparr>)
                else if length xs = length old then Inr (var\<lparr>var_data := Arr1 xs\<rparr>)
                else Inl DimensionMismatchError)
       | _ \<Rightarrow> Inl IndexError) f"

text \<open>
  Modelled from the spec: \<open>dset[name][0, 0, :, :] = v\<close> on a 4-D variable.  When the first dimension is the
  unlimited one and still empty, the first record is created, filled, and then written.
  Records past those written are supplied as fill values by the library on reading; the
  model stores a variable up to what was written to it.
\<close>

definition set_slot00 :: "string \<Rightarrow> ndarray option \<Rightarrow> ncfile \<Rightarrow> error + ncfile" where
  "set_slot00 name v f =
     update_var name (\<lambda>var.
       case (var_data var, var_dims var) of
         (Arr4 blocks, [dt, dz, dy, dx]) \<Rightarrow>
           (case (dim_len f dz, dim_len f dy, dim_len f dx) of
              (Some lz, Some ly, Some lx) \<Rightarrow>
                if blocks = [] \<and> map_of (dimensions f) dt \<noteq> Some None then Inl IndexError
                else if lz = 0 then Inl IndexError
                else (case v of
                        None \<Rightarrow> Inl TypeError
                      | Some (Arr2 rows) \<Rightarrow>
                          if length rows = ly \<and> (\<forall>r \<in> set rows. length r = lx)
                          then
                            let block0 = (if blocks = []
                                          then replicate lz (replicate ly (replicate lx fill_value))
                                          else hd blocks)
                            in Inr (var\<lparr>var_data := Arr4 (block0[0 := rows] # tl blocks)\<rparr>)
                          else Inl DimensionMismatchError
                      | Some _ \<Rightarrow> Inl DimensionMismatchError)
            | _ \<Rightarrow> Inl ValueError)
       | _ \<Rightarrow> Inl IndexError) f"

text \<open>
  Modelled from the spec: \<open>dset[name].valid_min = v\<close> and \<open>dset[name].valid_max = v\<close>,
  metadata attached to a variable.
\<close>

definition set_valid_min :: "string \<Rightarrow> item \<Rightarrow> ncfile \<Rightarrow> error + ncfile" where
  "set_valid_min name v f = update_var name (\<lambda>var. Inr (var\<lparr>valid_min := Some v\<rparr>)) f"

definition set_valid_max :: "string \<Rightarrow> item \<Rightarrow> ncfile \<Rightarrow> error + ncfile" where
  "set_valid_max name v f = update_var name (\<lambda>var. Inr (var\<lparr>valid_max := Some v\<rparr>)) f"

section \<open>The interpolation library\<close>

text \<open>
  The object \<open>RectBivariateSpline\<close> returns: the two knot vectors and the values on
  their grid.
\<close>

record spline =
  knots_x :: "fval list"
  knots_y :: "fval list"
  coefs :: "fval list list"

text \<open>Arithmetic and comparison on cells: NaN propagates, and compares false with everything.\<close>

fun fadd :: "fval \<Rightarrow> fval \<Rightarrow> fval" where
  "fadd (Fin a) (Fin b) = Fin (a + b)"
| "fadd _ _ = NaN"

fun fsub :: "fval \<Rightarrow> fval \<Rightarrow> fval" where
  "fsub (Fin a) (Fin b) = Fin (a - b)"
| "fsub _ _ = NaN"

fun fmul :: "fval \<Rightarrow> fval \<Rightarrow> fval" where
  "fmul (Fin a) (Fin b) = Fin (a * b)"
| "fmul _ _ = NaN"

text \<open>A zero divisor does not arise between distinct knots; it is given NaN.\<close>

fun fdiv :: "fval \<Rightarrow> fval \<Rightarrow> fval" where
  "fdiv (Fin a) (Fin b) = (if b = 0 then NaN else Fin (a / b))"
| "fdiv _ _ = NaN"

fun fless :: "fval \<Rightarrow> fval \<Rightarrow> bool" where
  "fless (Fin a) (Fin b) = (a < b)"
| "fless _ _ = False"

fun fle :: "fval \<Rightarrow> fval \<Rightarrow> bool" where
  "fle (Fin a) (Fin b) = (a \<le> b)"
| "fle _ _ = False"

definition strictly_increasing :: "fval list \<Rightarrow> bool" where
  "strictly_increasing ks = sorted_wrt fless ks"

text \<open>
  Modelled from the spec: \<open>RectBivariateSpline(x, y, z, kx=1, ky=1)\<close> of the interpolation
  library, which is not part of the source.  It takes two monotonic 1-D coordinate vectors
  and a matching 2-D value grid, degree 1 in each axis, and returns the bilinear
  interpolating surface.
\<close>

definition RectBivariateSpline :: "ndarray \<Rightarrow> ndarray \<Rightarrow> ndarray \<Rightarrow> error + spline" where
  "RectBivariateSpline xa ya za =
     (case (xa, ya, za) of
        (Arr1 xs, Arr1 ys, Arr2 zs) \<Rightarrow>
          if 2 \<le> length xs \<and> 2 \<le> length ys
             \<and> strictly_increasing xs \<and> strictly_increasing ys
             \<and> length zs = length xs \<and> (\<forall>r \<in> set zs. length r = length ys)
          then Inr \<lparr>knots_x = xs, knots_y = ys, coefs = zs\<rparr>
          else Inl ValueError
      | _ \<Rightarrow> Inl ValueError)"

text \<open>
  Modelled from the spec: the cell a coordinate falls into, counted as the knots after the
  first that are not above it and kept inside the grid, so that a point outside the knots
  is evaluated on the nearest cell (linear extension).
\<close>

definition find_cell :: "fval list \<Rightarrow> fval \<Rightarrow> nat" where
  "find_cell ks v = min (length (takeWhile (\<lambda>k. fle k v) (tl ks))) (length ks - 2)"

text \<open>Modelled from the spec: the sampler, \<open>sample(lat, lon)\<close>, bilinear on the cell.\<close>

definition sample :: "spline \<Rightarrow> fval \<Rightarrow> fval \<Rightarrow> fval" where
  "sample sp a b =
     (let i = find_cell (knots_x sp) a;
          j = find_cell (knots_y sp) b;
          a0 = knots_x sp ! i; a1 = knots_x sp ! Suc i;
          b0 = knots_y sp ! j; b1 = knots_y sp ! Suc j;
          t = fdiv (fsub a a0) (fsub a1 a0);
          u = fdiv (fsub b b0) (fsub b1 b0);
          t' = fsub (Fin 1) t;
          u' = fsub (Fin 1) u;
          z00 = coefs sp ! i ! j; z01 = coefs sp ! i ! Suc j;
          z10 = coefs sp ! Suc i ! j; z11 = coefs sp ! Suc i ! Suc j
      in fadd (fadd (fmul (fmul t' u') z00) (fmul (fmul t' u) z01))
              (fadd (fmul (fmul t u') z10) (fmul (fmul t u) z11)))"

section \<open>The grid\<close>

text \<open>
  An instance of \<open>NEMOGrid\<close>.  An attribute that is \<open>None\<close>, or that the instance does
  not have yet, is \<open>None\<close> here.  The particle list is not a field: the class body creates
  one list, and no instance ever binds \<open>_particles\<close> itself (see \<open>world\<close> below).
\<close>

record NEMOGrid =
  x :: int
  y :: int
  depth :: "fval list option"
  time_counter :: "fval list option"
  lon_u :: "ndarray option"
  lat_u :: "ndarray option"
  lon_v :: "ndarray option"
  lat_v :: "ndarray option"
  U :: "ndarray option"
  V :: "ndarray option"
  dset_u :: "ncfile option"
  dset_v :: "ncfile option"
  interp_u :: "spline option"
  interp_v :: "spline option"

text \<open>The attributes as the class body sets them.\<close>

definition class_defaults :: NEMOGrid where
  "class_defaults =
     \<lparr>x = 0, y = 0, depth = None, time_counter = None,
      lon_u = None, lat_u = None, lon_v = None, lat_v = None, U = None, V = None,
      dset_u = None, dset_v = None, interp_u = None, interp_v = None\<rparr>"

text \<open>\<open>self.depth.size\<close>\<close>

definition array_size :: "fval list option \<Rightarrow> error + nat" where
  "array_size a = (case a of None \<Rightarrow> Inl AttributeError | Some xs \<Rightarrow> Inr (length xs))"

section \<open>Writing\<close>

text \<open>
  The four loops of \<open>write\<close>, each started on the dataset it finds with its counter at 0.
  A longitude broadcast stores the longitude line in one row of \<open>nav_lon\<close> per
  iteration (lines 77-78 and 103-104); a latitude broadcast stores the latitude line in one
  column of \<open>nav_lat\<close> per iteration (lines 81-82 and 107-108).
\<close>

definition U_lon_broadcast :: "NEMOGrid \<Rightarrow> ncfile \<Rightarrow> error + (ncfile \<times> nat)" where
  "U_lon_broadcast g d =
     for_loop (range_py (y g)) (\<lambda>i. update_var ''nav_lon'' (set_row i (lon_u g))) (d, 0)"

definition U_lat_broadcast :: "NEMOGrid \<Rightarrow> ncfile \<Rightarrow> error + (ncfile \<times> nat)" where
  "U_lat_broadcast g d =
     for_loop (range_py (x g - 1)) (\<lambda>j. update_var ''nav_lat'' (set_col j (lat_u g))) (d, 0)"

definition V_lon_broadcast :: "NEMOGrid \<Rightarrow> ncfile \<Rightarrow> error + (ncfile \<times> nat)" where
  "V_lon_broadcast g d =
     for_loop (range_py (y g - 1)) (\<lambda>i. update_var ''nav_lon'' (set_row i (lon_v g))) (d, 0)"

definition V_lat_broadcast :: "NEMOGrid \<Rightarrow> ncfile \<Rightarrow> error + (ncfile \<times> nat)" where
  "V_lat_broadcast g d =
     for_loop (range_py (x g)) (\<lambda>j. update_var ''nav_lat'' (set_col j (lat_v g))) (d, 0)"

text \<open>
  The first half of \<open>write\<close>: the dataset of the U file, from its creation to its close.
  The two numbers returned with it are the iterations of the longitude broadcast and of
  the latitude broadcast, in this order.
\<close>

definition write_U :: "NEMOGrid \<Rightarrow> error + (ncfile \<times> nat \<times> nat)" where
  "write_U g =
     bind_err (createDimension ''x'' (Some (x g - 1)) empty_dataset) (\<lambda>d1.
     bind_err (createDimension ''y'' (Some (y g)) d1) (\<lambda>d2.
     bind_err (array_size (depth g)) (\<lambda>n.
     bind_err (createDimension ''depthu'' (Some (int n)) d2) (\<lambda>d3.
     bind_err (createDimension ''time_counter'' None d3) (\<lambda>d4.
     bind_err (createVariable ''nav_lon'' Float32 [''y'', ''x''] d4) (\<lambda>d5.
     bind_err (createVariable ''nav_lat'' Float32 [''y'', ''x''] d5) (\<lambda>d6.
     bind_err (createVariable ''depthu'' Float32 [''depthu''] d6) (\<lambda>d7.
     bind_err (createVariable ''time_counter'' Float64 [''time_counter''] d7) (\<lambda>d8.
     bind_err (createVariable ''vozocrtx'' Float32
                 [''time_counter'', ''depthu'', ''y'', ''x''] d8) (\<lambda>d9.
     bind_err (U_lon_broadcast g d9) (\<lambda>(d10, n_lon).
     bind_err (first_item (lon_u g)) (\<lambda>lo.
     bind_err (set_valid_min ''nav_lon'' lo d10) (\<lambda>d11.
     bind_err (last_item (lon_u g)) (\<lambda>hi.
     bind_err (set_valid_max ''nav_lon'' hi d11) (\<lambda>d12.
     bind_err (U_lat_broadcast g d12) (\<lambda>(d13, n_lat).
     bind_err (first_item (lat_u g)) (\<lambda>lo'.
     bind_err (set_valid_min ''nav_lat'' lo' d13) (\<lambda>d14.
     bind_err (last_item (lat_u g)) (\<lambda>hi'.
     bind_err (set_valid_max ''nav_lat'' hi' d14) (\<lambda>d15.
     bind_err (set_all ''depthu'' (depth g) d15) (\<lambda>d16.
     bind_err (set_all ''time_counter'' (time_counter g) d16) (\<lambda>d17.
     bind_err (set_slot00 ''vozocrtx'' (map_option np_transpose (U g)) d17) (\<lambda>d18.
       Inr (d18, n_lon, n_lat))))))))))))))))))))))))"

text \<open>
  The second half: the dataset of the V file, with the iterations of its longitude
  broadcast and of its latitude broadcast.
\<close>

definition write_V :: "NEMOGrid \<Rightarrow> error + (ncfile \<times> nat \<times> nat)" where
  "write_V g =
     bind_err (createDimension ''x'' (Some (x g)) empty_dataset) (\<lambda>d1.
     bind_err (createDimension ''y'' (Some (y g - 1)) d1) (\<lambda>d2.
     bind_err (array_size (depth g)) (\<lambda>n.
     bind_err (createDimension ''depthv'' (Some (int n)) d2) (\<lambda>d3.
     bind_err (createDimension ''time_counter'' None d3) (\<lambda>d4.
     bind_err (createVariable ''nav_lon'' Float32 [''y'', ''x''] d4) (\<lambda>d5.
     bind_err (createVariable ''nav_lat'' Float32 [''y'', ''x''] d5) (\<lambda>d6.
     bind_err (createVariable ''depthv'' Float32 [''depthv''] d6) (\<lambda>d7.
     bind_err (createVariable ''time_counter'' Float64 [''time_counter''] d7) (\<lambda>d8.
     bind_err (createVariable ''vomecrty'' Float32
                 [''time_counter'', ''depthv'', ''y'', ''x''] d8) (\<lambda>d9.
     bind_err (V_lon_broadcast g d9) (\<lambda>(d10, n_lon).
     bind_err (first_item (lon_u g)) (\<lambda>lo.
     bind_err (set_valid_min ''nav_lon'' lo d10) (\<lambda>d11.
     bind_err (last_item (lon_u g)) (\<lambda>hi.
     bind_err (set_valid_max ''nav_lon'' hi d11) (\<lambda>d12.
     bind_err (V_lat_broadcast g d12) (\<lambda>(d13, n_lat).
     bind_err (first_item (lat_u g)) (\<lambda>lo'.
     bind_err (set_valid_min ''nav_lat'' lo' d13) (\<lambda>d14.
     bind_err (last_item (lat_u g)) (\<lambda>hi'.
     bind_err (set_valid_max ''nav_lat'' hi' d14) (\<lambda>d15.
     bind_err (set_all ''depthv'' (depth g) d15) (\<lambda>d16.
     bind_err (set_all ''time_counter'' (time_counter g) d16) (\<lambda>d17.
     bind_err (set_slot00 ''vomecrty'' (map_option np_transpose (V g)) d17) (\<lambda>d18.
       Inr (d18, n_lon, n_lat))))))))))))))))))))))))"

section \<open>The world outside an instance\<close>

text \<open>
  What outlives a call: the list object that the class body binds to
  \<open>NEMOGrid._particles\<close>, and the files.  Paths are taken as resolved; \<open>writable\<close> tells
  where a file can be created.  The line that \<open>write\<close> prints is not modelled.
\<close>

record 'p world =
  cls_particles :: "'p list"
  files :: "string \<rightharpoonup> ncfile"
  writable :: "string \<Rightarrow> bool"

text \<open>
  \<open>self._particles\<close>: the instance has no such attribute of its own, so the lookup ends at
  the class attribute, whichever instance \<open>self\<close> is.
\<close>

definition particles :: "'p world \<Rightarrow> NEMOGrid \<Rightarrow> 'p list" where
  "particles w self = cls_particles w"

text \<open>\<open>append\<close> changes that list object in place.\<close>

definition add_particle :: "'p world \<Rightarrow> NEMOGrid \<Rightarrow> 'p \<Rightarrow> 'p world \<times> NEMOGrid" where
  "add_particle w self p = (w\<lparr>cls_particles := particles w self @ [p]\<rparr>, self)"

text \<open>
  Modelled from the spec: \<open>Dataset(path, 'r')\<close>, which raises \<open>MissingFileError\<close> when
  there is no such file, and \<open>Dataset(path, 'w')\<close>, which raises \<open>PathUnwritableError\<close>
  when the file cannot be created and gives an empty dataset otherwise.
\<close>

definition open_read :: "'p world \<Rightarrow> string \<Rightarrow> error + ncfile" where
  "open_read w path = (case files w path of None \<Rightarrow> Inl MissingFileError | Some f \<Rightarrow> Inr f)"

definition open_write :: "'p world \<Rightarrow> string \<Rightarrow> error + ncfile" where
  "open_write w path = (if writable w path then Inr empty_dataset else Inl PathUnwritableError)"

text \<open>
  \<open>write\<close>: both datasets are written and closed in turn.  The instance is handed back with
  the world, as the method could have changed either.
\<close>

definition NEMOGrid_write :: "'p world \<Rightarrow> NEMOGrid \<Rightarrow> string \<Rightarrow> error + ('p world \<times> NEMOGrid)" where
  "NEMOGrid_write w self filename =
     (let filepath = filename in
      bind_err (open_write w (filepath @ ''_U'')) (\<lambda>_.
      bind_err (write_U self) (\<lambda>(du, _).
      let w1 = w\<lparr>files := (files w)(filepath @ ''_U'' \<mapsto> du)\<rparr> in
      bind_err (open_write w1 (filepath @ ''_V'')) (\<lambda>_.
      bind_err (write_V self) (\<lambda>(dv, _).
      let w2 = w1\<lparr>files := (files w1)(filepath @ ''_V'' \<mapsto> dv)\<rparr> in
        Inr (w2, self))))))"

section \<open>Reading\<close>

text \<open>
  The slices \<open>var[0, 0, :, :]\<close>, \<open>a[:, 0]\<close> and \<open>a[0, :]\<close>, with Python's \<open>IndexError\<close>
  where an index is out of range or the array has too few axes.
\<close>

fun slice00 :: "ndarray \<Rightarrow> error + ndarray" where
  "slice00 (Arr4 blocks) =
     (if blocks = [] then Inl IndexError
      else if hd blocks = [] then Inl IndexError
      else Inr (Arr2 (hd (hd blocks))))"
| "slice00 _ = Inl IndexError"

fun col0 :: "ndarray \<Rightarrow> error + ndarray" where
  "col0 (Arr1 xs) = Inl IndexError"
| "col0 (Arr2 xs) = (if [] \<in> set xs then Inl IndexError else Inr (Arr1 (map hd xs)))"
| "col0 (Arr3 xs) = (if [] \<in> set xs then Inl IndexError else Inr (Arr2 (map hd xs)))"
| "col0 (Arr4 xs) = (if [] \<in> set xs then Inl IndexError else Inr (Arr3 (map hd xs)))"

fun row0 :: "ndarray \<Rightarrow> error + ndarray" where
  "row0 (Arr1 xs) = Inl IndexError"
| "row0 (Arr2 xs) = (if xs = [] then Inl IndexError else Inr (Arr1 (hd xs)))"
| "row0 (Arr3 xs) = (if xs = [] then Inl IndexError else Inr (Arr2 (hd xs)))"
| "row0 (Arr4 xs) = (if xs = [] then Inl IndexError else Inr (Arr3 (hd xs)))"

text \<open>\<open>a[np.isnan(a)] = 0.\<close>\<close>

definition zero_nan :: "fval \<Rightarrow> fval" where
  "zero_nan v = (case v of NaN \<Rightarrow> Fin 0 | Fin r \<Rightarrow> Fin r)"

fun nan_to_zero :: "ndarray \<Rightarrow> ndarray" where
  "nan_to_zero (Arr1 xs) = Arr1 (map zero_nan xs)"
| "nan_to_zero (Arr2 xs) = Arr2 (map (map zero_nan) xs)"
| "nan_to_zero (Arr3 xs) = Arr3 (map (map (map zero_nan)) xs)"
| "nan_to_zero (Arr4 xs) = Arr4 (map (map (map (map zero_nan))) xs)"

text \<open>The body of \<open>__init__\<close> under \<open>if filename:\<close>.\<close>

definition init_from_file :: "'p world \<Rightarrow> string \<Rightarrow> error + NEMOGrid" where
  "init_from_file w filename =
     bind_err (open_read w (filename @ ''_U'')) (\<lambda>du.
     bind_err (open_read w (filename @ ''_V'')) (\<lambda>dv.
     bind_err (getvar du ''nav_lon'') (\<lambda>lonu.
     bind_err (getvar du ''nav_lat'') (\<lambda>latu.
     bind_err (getvar dv ''nav_lon'') (\<lambda>lonv.
     bind_err (getvar dv ''nav_lat'') (\<lambda>latv.
     bind_err (getvar du ''vozocrtx'') (\<lambda>vu.
     bind_err (slice00 (var_data vu)) (\<lambda>u0.
     bind_err (getvar dv ''vomecrty'') (\<lambda>vv.
     bind_err (slice00 (var_data vv)) (\<lambda>v0.
     let u1 = nan_to_zero u0; v1 = nan_to_zero v0 in
     bind_err (col0 (var_data latu)) (\<lambda>ax.
     bind_err (row0 (var_data lonu)) (\<lambda>ay.
     bind_err (RectBivariateSpline ax ay u1) (\<lambda>iu.
     bind_err (col0 (var_data latv)) (\<lambda>bx.
     bind_err (row0 (var_data lonv)) (\<lambda>by.
     bind_err (RectBivariateSpline bx by v1) (\<lambda>iv.
       Inr (class_defaults\<lparr>
              dset_u := Some du, dset_v := Some dv,
              lon_u := Some (var_data lonu), lat_u := Some (var_data latu),
              lon_v := Some (var_data lonv), lat_v := Some (var_data latv),
              U := Some u1, V := Some v1,
              interp_u := Some iu, interp_v := Some iv\<rparr>)))))))))))))))))"

text \<open>
  \<open>NEMOGrid(filename)\<close>.  \<open>None\<close> and the empty string are false in Python: nothing is
  opened, and the instance keeps the class attributes.
\<close>

definition NEMOGrid_init :: "'p world \<Rightarrow> string option \<Rightarrow> error + ('p world \<times> NEMOGrid)" where
  "NEMOGrid_init w filename =
     (case filename of
        None \<Rightarrow> Inr (w, class_defaults)
      | Some name \<Rightarrow>
          if name = [] then Inr (w, class_defaults)
          else bind_err (init_from_file w name) (\<lambda>self. Inr (w, self)))"

section \<open>A worked grid\<close>

text \<open>
  A full grid of 3 by 3 points, set up by hand as a caller would before \<open>write\<close>: the U
  points lie between the columns and the V points between the rows.  The velocity fields
  are held with \<open>x\<close> as their first axis, and one cell of \<open>U\<close> is missing.
\<close>

definition example_grid :: NEMOGrid where
  "example_grid = class_defaults\<lparr>
     x := 3, y := 3, depth := Some [Fin 0], time_counter := Some [Fin 0],
     lon_u := Some (Arr1 [Fin 1, Fin 3]), lat_u := Some (Arr1 [Fin 0, Fin 2, Fin 4]),
     lon_v := Some (Arr1 [Fin 0, Fin 2, Fin 4]), lat_v := Some (Arr1 [Fin 1, Fin 3]),
     U := Some (Arr2 [[Fin 2, NaN, Fin 2], [Fin 2, Fin 2, Fin 2]]),
     V := Some (Arr2 [[Fin 1, Fin 1], [Fin 1, Fin 1], [Fin 1, Fin 1]])\<rparr>"

text \<open>A world with no file yet, where every path can be written, and no particle.\<close>

definition example_world :: "nat world" where
  "example_world = \<lparr>cls_particles = [], files = Map.empty, writable = (\<lambda>_. True)\<rparr>"

text \<open>The two datasets that writing the worked grid gives.\<close>

definition example_U :: ncfile where
  "example_U =
     \<lparr>dimensions = [(''x'', Some 2), (''y'', Some 3), (''depthu'', Some 1), (''time_counter'', None)],
      variables =
        [(''nav_lon'', \<lparr>var_type = Float32, var_dims = [''y'', ''x''],
             var_data = Arr2 [[Fin 1, Fin 3], [Fin 1, Fin 3], [Fin 1, Fin 3]],
             valid_min = Some (Scalar (Fin 1)), valid_max = Some (Scalar (Fin 3))\<rparr>),
         (''nav_lat'', \<lparr>var_type = Float32, var_dims = [''y'', ''x''],
             var_data = Arr2 [[Fin 0, Fin 0], [Fin 2, Fin 2], [Fin 4, Fin 4]],
             valid_min = Some (Scalar (Fin 0)), valid_max = Some (Scalar (Fin 4))\<rparr>),
         (''depthu'', \<lparr>var_type = Float32, var_dims = [''depthu''],
             var_data = Arr1 [Fin 0], valid_min = None, valid_max = None\<rparr>),
         (''time_counter'', \<lparr>var_type = Float64, var_dims = [''time_counter''],
             var_data = Arr1 [Fin 0], valid_min = None, valid_max = None\<rparr>),
         (''vozocrtx'', \<lparr>var_type = Float32,
             var_dims = [''time_counter'', ''depthu'', ''y'', ''x''],
             var_data = Arr4 [[[[Fin 2, Fin 2], [NaN, Fin 2], [Fin 2, Fin 2]]]],
             valid_min = None, valid_max = None\<rparr>)]\<rparr>"

definition example_V :: ncfile where
  "example_V =
     \<lparr>dimensions = [(''x'', Some 3), (''y'', Some 2), (''depthv'', Some 1), (''time_counter'', None)],
      variables =
        [(''nav_lon'', \<lparr>var_type = Float32, var_dims = [''y'', ''x''],
             var_data = Arr2 [[Fin 0, Fin 2, Fin 4], [Fin 0, Fin 2, Fin 4]],
             valid_min = Some (Scalar (Fin 1)), valid_max = Some (Scalar (Fin 3))\<rparr>),
         (''nav_lat'', \<lparr>var_type = Float32, var_dims = [''y'', ''x''],
             var_data = Arr2 [[Fin 1, Fin 1, Fin 1], [Fin 3, Fin 3, Fin 3]],
             valid_min = Some (Scalar (Fin 0)), valid_max = Some (Scalar (Fin 4))\<rparr>),
         (''depthv'', \<lparr>var_type = Float32, var_dims = [''depthv''],
             var_data = Arr1 [Fin 0], valid_min = None, valid_max = None\<rparr>),
         (''time_counter'', \<lparr>var_type = Float64, var_dims = [''time_counter''],
             var_data = Arr1 [Fin 0], valid_min = None, valid_max = None\<rparr>),
         (''vomecrty'', \<lparr>var_type = Float32,
             var_dims = [''time_counter'', ''depthv'', ''y'', ''x''],
             var_data = Arr4 [[[[Fin 1, Fin 1, Fin 1], [Fin 1, Fin 1, Fin 1]]]],
             valid_min = None, valid_max = None\<rparr>)]\<rparr>"

definition example_written :: "nat world" where
  "example_written =
     example_world\<lparr>files := [''out_U'' \<mapsto> example_U, ''out_V'' \<mapsto> example_V]\<rparr>"





text \<open>The instance that reading the written files back gives.\<close>

definition example_read :: NEMOGrid where
  "example_read = class_defaults\<lparr>
     dset_u := Some example_U, dset_v := Some example_V,
     lon_u := Some (Arr2 [[Fin 1, Fin 3], [Fin 1, Fin 3], [Fin 1, Fin 3]]),
     lat_u := Some (Arr2 [[Fin 0, Fin 0], [Fin 2, Fin 2], [Fin 4, Fin 4]]),
     lon_v := Some (Arr2 [[Fin 0, Fin 2, Fin 4], [Fin 0, Fin 2, Fin 4]]),
     lat_v := Some (Arr2 [[Fin 1, Fin 1, Fin 1], [Fin 3, Fin 3, Fin 3]]),
     U := Some (Arr2 [[Fin 2, Fin 2], [Fin 0, Fin 2], [Fin 2, Fin 2]]),
     V := Some (Arr2 [[Fin 1, Fin 1, Fin 1], [Fin 1, Fin 1, Fin 1]]),
     interp_u := Some \<lparr>knots_x = [Fin 0, Fin 2, Fin 4], knots_y = [Fin 1, Fin 3],
                       coefs = [[Fin 2, Fin 2], [Fin 0, Fin 2], [Fin 2, Fin 2]]\<rparr>,
     interp_v := Some \<lparr>knots_x = [Fin 1, Fin 3], knots_y = [Fin 0, Fin 2, Fin 4],
                       coefs = [[Fin 1, Fin 1, Fin 1], [Fin 1, Fin 1, Fin 1]]\<rparr>\<rparr>"

section \<open>Proofs: the error monad and the loops\<close>

lemma bind_err_eq_Inr: "(bind_err m k = Inr r) = (\<exists>v. m = Inr v \<and> k v = Inr r)"
  by (cases m) (simp_all add: bind_err_def)

lemma bind_err_Inr [simp]: "bind_err (Inr v) k = k v"
  by (simp add: bind_err_def)

lemma bind_err_Inl [simp]: "bind_err (Inl e) k = Inl e"
  by (simp add: bind_err_def)

lemma foldl_bind_Inl:
  "foldl (\<lambda>acc i. bind_err acc (upd i)) (Inl e) idxs = Inl e"
  by (induction idxs) simp_all

lemma put_var_same:
  "map_of xs name = Some v \<Longrightarrow> distinct (map fst xs) \<Longrightarrow> put_var name v xs = xs"
proof (induction xs)
  case Nil
  then show ?case by (simp add: put_var_def)
next
  case (Cons p xs)
  obtain n u where p: "p = (n, u)" by (cases p)
  show ?case
  proof (cases "n = name")
    case True
    with Cons.prems p have "u = v" by simp
    moreover have "put_var name v xs = xs"
      unfolding put_var_def using Cons.prems p True
      by (intro map_idI) (auto simp: image_iff)
    ultimately show ?thesis using p True by (simp add: put_var_def)
  next
    case False
    with Cons p show ?thesis by (simp add: put_var_def)
  qed
qed

lemma map_of_put_var:
  "map_of (put_var name v xs) m =
     (if m = name then map_option (\<lambda>_. v) (map_of xs name) else map_of xs m)"
  by (induction xs) (auto simp: put_var_def)

lemma map_fst_put_var: "map fst (put_var name v xs) = map fst xs"
  by (induction xs) (auto simp: put_var_def)

lemma put_var_put_var: "put_var name w (put_var name v xs) = put_var name w xs"
  by (induction xs) (auto simp: put_var_def)

lemma for_loop_update_var_eq:
  "getvar f name = Inr v \<Longrightarrow> distinct (map fst (variables f)) \<Longrightarrow>
   for_loop idxs (\<lambda>i. update_var name (upd i)) (f, k) =
     (case foldl (\<lambda>acc i. bind_err acc (upd i)) (Inr v) idxs of
        Inl e \<Rightarrow> Inl e
      | Inr v' \<Rightarrow> Inr (f\<lparr>variables := put_var name v' (variables f)\<rparr>, k + length idxs))"
proof (induction idxs arbitrary: f v k)
  case Nil
  then show ?case
    by (simp add: getvar_def put_var_same split: option.splits)
next
  case (Cons i idxs)
  show ?case
  proof (cases "upd i v")
    case (Inl e)
    with Cons.prems show ?thesis
      by (simp add: update_var_def foldl_bind_Inl)
  next
    case (Inr v1)
    define f1 where "f1 = f\<lparr>variables := put_var name v1 (variables f)\<rparr>"
    have u: "update_var name (upd i) f = Inr f1"
      using Cons.prems Inr by (simp add: update_var_def f1_def)
    have g1: "getvar f1 name = Inr v1"
      using Cons.prems(1)
      by (auto simp: getvar_def f1_def map_of_put_var split: option.splits)
    have d1: "distinct (map fst (variables f1))"
      using Cons.prems(2) by (simp add: f1_def map_fst_put_var)
    show ?thesis
      using Cons.IH [OF g1 d1, of "Suc k"] u Inr
      by (simp add: f1_def put_var_put_var split: sum.splits)
  qed
qed

lemma set_row_Inr_iff:
  "(set_row i v var = Inr var') =
     (\<exists>rows xs. var_data var = Arr2 rows \<and> i < length rows \<and> v = Some (Arr1 xs)
        \<and> length xs = length (rows ! i) \<and> var' = var\<lparr>var_data := Arr2 (rows[i := xs])\<rparr>)"
  by (auto simp: set_row_def split: ndarray.splits option.splits)

lemma set_col_Inr_iff:
  "(set_col j v var = Inr var') =
     (\<exists>rows xs. var_data var = Arr2 rows \<and> (\<forall>row \<in> set rows. j < length row)
        \<and> v = Some (Arr1 xs) \<and> length xs = length rows
        \<and> var' = var\<lparr>var_data := Arr2 (map2 (\<lambda>row e. row[j := e]) rows xs)\<rparr>)"
  by (auto simp: set_col_def split: ndarray.splits option.splits)

lemma fold_set_row_I:
  "var_data var = Arr2 rows \<Longrightarrow> n \<le> length rows \<Longrightarrow> \<forall>i<n. length (rows ! i) = length lu \<Longrightarrow>
   foldl (\<lambda>acc i. bind_err acc (set_row i (Some (Arr1 lu)))) (Inr var) [0..<n] =
     Inr (var\<lparr>var_data := Arr2 (replicate n lu @ drop n rows)\<rparr>)"
proof (induction n)
  case 0
  then show ?case by simp
next
  case (Suc n)
  have "(replicate n lu @ drop n rows)[n := lu] = replicate (Suc n) lu @ drop (Suc n) rows"
    using Suc.prems(2)
    by (simp add: list_update_append replicate_append_same upd_conv_take_nth_drop Cons_nth_drop_Suc
        flip: drop_Suc)
  then show ?case
    using Suc by (simp add: set_row_def nth_append)
qed

lemma fold_set_row_D:
  "foldl (\<lambda>acc i. bind_err acc (set_row i v)) (Inr var) [0..<n] = Inr var' \<Longrightarrow>
   var_data var = Arr2 rows \<Longrightarrow>
   \<exists>rows'. var' = var\<lparr>var_data := Arr2 rows'\<rparr> \<and> length rows' = length rows \<and> n \<le> length rows
      \<and> (\<forall>i<n. v = Some (Arr1 (rows' ! i)) \<and> length (rows' ! i) = length (rows ! i))
      \<and> (\<forall>i. n \<le> i \<longrightarrow> rows' ! i = rows ! i)"
proof (induction n arbitrary: var')
  case 0
  then show ?case by (auto intro!: exI [of _ rows])
next
  case (Suc n)
  from Suc.prems(1) obtain var1 where
    f: "foldl (\<lambda>acc i. bind_err acc (set_row i v)) (Inr var) [0..<n] = Inr var1"
    and s: "set_row n v var1 = Inr var'"
    by (auto simp: bind_err_eq_Inr)
  from Suc.IH [OF f Suc.prems(2)] obtain rows1 where r1:
    "var1 = var\<lparr>var_data := Arr2 rows1\<rparr>" "length rows1 = length rows" "n \<le> length rows"
    "\<forall>i<n. v = Some (Arr1 (rows1 ! i)) \<and> length (rows1 ! i) = length (rows ! i)"
    "\<forall>i. n \<le> i \<longrightarrow> rows1 ! i = rows ! i"
    by blast
  from s r1(1) obtain xs where x:
    "n < length rows1" "v = Some (Arr1 xs)" "length xs = length (rows1 ! n)"
    "var' = var\<lparr>var_data := Arr2 (rows1[n := xs])\<rparr>"
    by (auto simp: set_row_Inr_iff)
  show ?case
  proof (intro exI conjI allI impI)
    show "var' = var\<lparr>var_data := Arr2 (rows1[n := xs])\<rparr>" by (rule x(4))
    show "length (rows1[n := xs]) = length rows" using r1(2) by simp
    show "Suc n \<le> length rows" using x(1) r1(2) by simp
  next
    fix i assume "i < Suc n"
    then show "v = Some (Arr1 (rows1[n := xs] ! i))"
      using r1(4) x(1,2) by (cases "i = n") auto
  next
    fix i assume "i < Suc n"
    then show "length (rows1[n := xs] ! i) = length (rows ! i)"
      using r1(4,5) x(1,3) by (cases "i = n") auto
  next
    fix i assume "Suc n \<le> i"
    then show "rows1[n := xs] ! i = rows ! i"
      using r1(5) by simp
  qed
qed


lemma createDimension_Inr:
  "createDimension name n f = Inr f' \<Longrightarrow>
     f' = f\<lparr>dimensions := dimensions f @ [(name, n)]\<rparr> \<and> (\<forall>k. n = Some k \<longrightarrow> 0 \<le> k)"
  by (auto simp: createDimension_def split: option.splits if_splits)

lemma write_U_Inr_E:
  assumes "write_U g = Inr (f, n1, n2)"
  obtains d1 d2 n d3 d4 d5 d6 d7 d8 d9 d10 lo d11 hi d12 d13 lo' d14 hi' d15 d16 d17 where
    "createDimension ''x'' (Some (x g - 1)) empty_dataset = Inr d1"
    "createDimension ''y'' (Some (y g)) d1 = Inr d2"
    "array_size (depth g) = Inr n"
    "createDimension ''depthu'' (Some (int n)) d2 = Inr d3"
    "createDimension ''time_counter'' None d3 = Inr d4"
    "createVariable ''nav_lon'' Float32 [''y'', ''x''] d4 = Inr d5"
    "createVariable ''nav_lat'' Float32 [''y'', ''x''] d5 = Inr d6"
    "createVariable ''depthu'' Float32 [''depthu''] d6 = Inr d7"
    "createVariable ''time_counter'' Float64 [''time_counter''] d7 = Inr d8"
    "createVariable ''vozocrtx'' Float32 [''time_counter'', ''depthu'', ''y'', ''x''] d8 = Inr d9"
    "for_loop (range_py (y g)) (\<lambda>i. update_var ''nav_lon'' (set_row i (lon_u g))) (d9, 0)
       = Inr (d10, n1)"
    "first_item (lon_u g) = Inr lo"
    "set_valid_min ''nav_lon'' lo d10 = Inr d11"
    "last_item (lon_u g) = Inr hi"
    "set_valid_max ''nav_lon'' hi d11 = Inr d12"
    "for_loop (range_py (x g - 1)) (\<lambda>j. update_var ''nav_lat'' (set_col j (lat_u g))) (d12, 0)
       = Inr (d13, n2)"
    "first_item (lat_u g) = Inr lo'"
    "set_valid_min ''nav_lat'' lo' d13 = Inr d14"
    "last_item (lat_u g) = Inr hi'"
    "set_valid_max ''nav_lat'' hi' d14 = Inr d15"
    "set_all ''depthu'' (depth g) d15 = Inr d16"
    "set_all ''time_counter'' (time_counter g) d16 = Inr d17"
    "set_slot00 ''vozocrtx'' (map_option np_transpose (U g)) d17 = Inr f"
  using assms
  by (auto simp: write_U_def U_lon_broadcast_def U_lat_broadcast_def bind_err_eq_Inr)

lemma write_V_Inr_E:
  assumes "write_V g = Inr (f, n1, n2)"
  obtains d1 d2 n d3 d4 d5 d6 d7 d8 d9 d10 lo d11 hi d12 d13 lo' d14 hi' d15 d16 d17 where
    "createDimension ''x'' (Some (x g)) empty_dataset = Inr d1"
    "createDimension ''y'' (Some (y g - 1)) d1 = Inr d2"
    "array_size (depth g) = Inr n"
    "createDimension ''depthv'' (Some (int n)) d2 = Inr d3"
    "createDimension ''time_counter'' None d3 = Inr d4"
    "createVariable ''nav_lon'' Float32 [''y'', ''x''] d4 = Inr d5"
    "createVariable ''nav_lat'' Float32 [''y'', ''x''] d5 = Inr d6"
    "createVariable ''depthv'' Float32 [''depthv''] d6 = Inr d7"
    "createVariable ''time_counter'' Float64 [''time_counter''] d7 = Inr d8"
    "createVariable ''vomecrty'' Float32 [''time_counter'', ''depthv'', ''y'', ''x''] d8 = Inr d9"
    "for_loop (range_py (y g - 1)) (\<lambda>i. update_var ''nav_lon'' (set_row i (lon_v g))) (d9, 0)
       = Inr (d10, n1)"
    "first_item (lon_u g) = Inr lo"
    "set_valid_min ''nav_lon'' lo d10 = Inr d11"
    "last_item (lon_u g) = Inr hi"
    "set_valid_max ''nav_lon'' hi d11 = Inr d12"
    "for_loop (range_py (x g)) (\<lambda>j. update_var ''nav_lat'' (set_col j (lat_v g))) (d12, 0)
       = Inr (d13, n2)"
    "first_item (lat_u g) = Inr lo'"
    "set_valid_min ''nav_lat'' lo' d13 = Inr d14"
    "last_item (lat_u g) = Inr hi'"
    "set_valid_max ''nav_lat'' hi' d14 = Inr d15"
    "set_all ''depthv'' (depth g) d15 = Inr d16"
    "set_all ''time_counter'' (time_counter g) d16 = Inr d17"
    "set_slot00 ''vomecrty'' (map_option np_transpose (V g)) d17 = Inr f"
  using assms
  by (auto simp: write_V_def V_lon_broadcast_def V_lat_broadcast_def bind_err_eq_Inr)


lemma fold_set_col_D:
  "foldl (\<lambda>acc j. bind_err acc (set_col j v)) (Inr var) [0..<m] = Inr var' \<Longrightarrow>
   var_data var = Arr2 rows \<Longrightarrow>
   \<exists>rows'. var' = var\<lparr>var_data := Arr2 rows'\<rparr> \<and> length rows' = length rows
      \<and> (\<forall>i<length rows. length (rows' ! i) = length (rows ! i))
      \<and> (\<forall>i<length rows. m \<le> length (rows ! i))
      \<and> (\<forall>j<m. \<exists>xs. v = Some (Arr1 xs) \<and> length xs = length rows
                    \<and> (\<forall>i<length rows. rows' ! i ! j = xs ! i))"
proof (induction m arbitrary: var')
  case 0
  then show ?case by (auto intro!: exI [of _ rows])
next
  case (Suc m)
  from Suc.prems(1) obtain var1 where
    f: "foldl (\<lambda>acc j. bind_err acc (set_col j v)) (Inr var) [0..<m] = Inr var1"
    and s: "set_col m v var1 = Inr var'"
    by (auto simp: bind_err_eq_Inr)
  from Suc.IH [OF f Suc.prems(2)] obtain rows1 where r1:
    "var1 = var\<lparr>var_data := Arr2 rows1\<rparr>" "length rows1 = length rows"
    "\<forall>i<length rows. length (rows1 ! i) = length (rows ! i)"
    "\<forall>j<m. \<exists>xs. v = Some (Arr1 xs) \<and> length xs = length rows
             \<and> (\<forall>i<length rows. rows1 ! i ! j = xs ! i)"
    by blast
  from s r1(1) obtain xs where x:
    "\<forall>row \<in> set rows1. m < length row" "v = Some (Arr1 xs)" "length xs = length rows1"
    "var' = var\<lparr>var_data := Arr2 (map2 (\<lambda>row e. row[m := e]) rows1 xs)\<rparr>"
    by (auto simp: set_col_Inr_iff)
  let ?rows' = "map2 (\<lambda>row e. row[m := e]) rows1 xs"
  have nth: "?rows' ! i = (rows1 ! i)[m := xs ! i]" if "i < length rows" for i
    using that r1(2) x(3) by simp
  have lt: "m < length (rows1 ! i)" if "i < length rows" for i
    using that x(1) r1(2) by (simp add: all_set_conv_all_nth)
  have last: "\<exists>ys. v = Some (Arr1 ys) \<and> length ys = length rows
             \<and> (\<forall>i<length rows. ?rows' ! i ! j = ys ! i)" if j: "j < Suc m" for j
  proof (cases "j = m")
    case True
    then show ?thesis
      using x(2,3) r1(2) nth lt by auto
  next
    case False
    with j have "j < m" by simp
    with r1(4) obtain ys where ys: "v = Some (Arr1 ys)" "length ys = length rows"
      "\<forall>i<length rows. rows1 ! i ! j = ys ! i" by blast
    with False nth show ?thesis by auto
  qed
  show ?case
  proof (intro exI [of _ ?rows'] conjI)
    show "var' = var\<lparr>var_data := Arr2 ?rows'\<rparr>" by (rule x(4))
    show "length ?rows' = length rows" using r1(2) x(3) by simp
    show "\<forall>i<length rows. length (?rows' ! i) = length (rows ! i)"
      using nth r1(3) by simp
    show "\<forall>i<length rows. Suc m \<le> length (rows ! i)"
      using lt r1(3) by (simp add: Suc_le_eq)
    show "\<forall>j<Suc m. \<exists>ys. v = Some (Arr1 ys) \<and> length ys = length rows
             \<and> (\<forall>i<length rows. ?rows' ! i ! j = ys ! i)"
      using last by blast
  qed
qed

lemma map2_fst_same: "length ys = length xs \<Longrightarrow> map2 (\<lambda>a b. a) xs ys = xs"
  by (induction xs ys rule: list_induct2') auto

lemma fold_set_col_I:
  "var_data var = Arr2 rows \<Longrightarrow> length la = length rows \<Longrightarrow> \<forall>r \<in> set rows. m \<le> length r \<Longrightarrow>
   foldl (\<lambda>acc j. bind_err acc (set_col j (Some (Arr1 la)))) (Inr var) [0..<m] =
     Inr (var\<lparr>var_data := Arr2 (map2 (\<lambda>row e. replicate m e @ drop m row) rows la)\<rparr>)"
proof (induction m)
  case 0
  then show ?case by (simp add: map2_fst_same)
next
  case (Suc m)
  let ?rows1 = "map2 (\<lambda>row e. replicate m e @ drop m row) rows la"
  have w: "Suc m \<le> length (rows ! i)" if "i < length rows" for i
    using that Suc.prems(3) by simp
  have a: "\<forall>row \<in> set ?rows1. m < length row"
    using Suc.prems(2) w by (fastforce simp: set_zip)
  have b: "map2 (\<lambda>row e. row[m := e]) ?rows1 la =
           map2 (\<lambda>row e. replicate (Suc m) e @ drop (Suc m) row) rows la"
  proof (rule nth_equalityI)
    show "length (map2 (\<lambda>row e. row[m := e]) ?rows1 la) =
          length (map2 (\<lambda>row e. replicate (Suc m) e @ drop (Suc m) row) rows la)"
      using Suc.prems(2) by simp
  next
    fix i assume "i < length (map2 (\<lambda>row e. row[m := e]) ?rows1 la)"
    then have i: "i < length rows" "i < length la" using Suc.prems(2) by simp_all
    then have "Suc m \<le> length (rows ! i)" using Suc.prems(3) by auto
    then have "(replicate m (la ! i) @ drop m (rows ! i))[m := la ! i] =
               replicate (Suc m) (la ! i) @ drop (Suc m) (rows ! i)"
      by (simp add: list_update_append replicate_append_same upd_conv_take_nth_drop Cons_nth_drop_Suc
          flip: drop_Suc)
    with i show "map2 (\<lambda>row e. row[m := e]) ?rows1 la ! i =
                 map2 (\<lambda>row e. replicate (Suc m) e @ drop (Suc m) row) rows la ! i"
      by simp
  qed
  have "\<forall>r \<in> set rows. m \<le> length r"
    using Suc.prems(3) by auto
  with Suc have f: "foldl (\<lambda>acc j. bind_err acc (set_col j (Some (Arr1 la)))) (Inr var) [0..<m] =
     Inr (var\<lparr>var_data := Arr2 ?rows1\<rparr>)" by simp
  have st: "set_col m (Some (Arr1 la)) (var\<lparr>var_data := Arr2 ?rows1\<rparr>) =
     Inr (var\<lparr>var_data := Arr2 (map2 (\<lambda>row e. replicate (Suc m) e @ drop (Suc m) row) rows la)\<rparr>)"
    using a Suc.prems(2) unfolding b [symmetric] by (simp add: set_col_def)
  show ?case
    by (simp only: upt_Suc_append [OF le0] foldl_append foldl.simps f bind_err_Inr st)
qed

section \<open>Proofs: what a dataset holds when it has been written\<close>

lemma stagger_chain_D:
  fixes nxi nyi :: int and dn vn :: string
  assumes names: "dn \<notin> {''x'', ''y'', ''time_counter'', ''nav_lon'', ''nav_lat''}"
      "vn \<notin> {''x'', ''y'', ''time_counter'', ''nav_lon'', ''nav_lat''}" "vn \<noteq> dn"
    and s:
    "createDimension ''x'' (Some nxi) empty_dataset = Inr d1"
    "createDimension ''y'' (Some nyi) d1 = Inr d2"
    "array_size dep = Inr n"
    "createDimension dn (Some (int n)) d2 = Inr d3"
    "createDimension ''time_counter'' None d3 = Inr d4"
    "createVariable ''nav_lon'' Float32 [''y'', ''x''] d4 = Inr d5"
    "createVariable ''nav_lat'' Float32 [''y'', ''x''] d5 = Inr d6"
    "createVariable dn Float32 [dn] d6 = Inr d7"
    "createVariable ''time_counter'' Float64 [''time_counter''] d7 = Inr d8"
    "createVariable vn Float32 [''time_counter'', dn, ''y'', ''x''] d8 = Inr d9"
    "for_loop (range_py nyi) (\<lambda>i. update_var ''nav_lon'' (set_row i lon)) (d9, 0) = Inr (d10, n1)"
    "set_valid_min ''nav_lon'' lo d10 = Inr d11"
    "set_valid_max ''nav_lon'' hi d11 = Inr d12"
    "for_loop (range_py nxi) (\<lambda>j. update_var ''nav_lat'' (set_col j lat)) (d12, 0) = Inr (d13, n2)"
    "set_valid_min ''nav_lat'' lo' d13 = Inr d14"
    "set_valid_max ''nav_lat'' hi' d14 = Inr d15"
    "set_all dn dep d15 = Inr d16"
    "set_all ''time_counter'' tc d16 = Inr d17"
    "set_slot00 vn fld d17 = Inr f"
  shows "\<exists>ds ts rows_lon rows_lat frows.
      0 \<le> nxi \<and> 0 \<le> nyi \<and> n1 = nat nyi \<and> n2 = nat nxi
    \<and> dep = Some ds \<and> ds \<noteq> [] \<and> tc = Some ts
    \<and> fld = Some (Arr2 frows) \<and> length frows = nat nyi \<and> (\<forall>r \<in> set frows. length r = nat nxi)
    \<and> length rows_lon = nat nyi
    \<and> (\<forall>r \<in> set rows_lon. lon = Some (Arr1 r) \<and> length r = nat nxi)
    \<and> length rows_lat = nat nyi
    \<and> (\<forall>r \<in> set rows_lat. length r = nat nxi)
    \<and> (\<forall>j < nat nxi. lat = Some (Arr1 (map (\<lambda>r. r ! j) rows_lat)))
    \<and> f = \<lparr>dimensions =
              [(''x'', Some nxi), (''y'', Some nyi), (dn, Some (int (length ds))),
               (''time_counter'', None)],
            variables =
              [(''nav_lon'', \<lparr>var_type = Float32, var_dims = [''y'', ''x''],
                   var_data = Arr2 rows_lon, valid_min = Some lo, valid_max = Some hi\<rparr>),
               (''nav_lat'', \<lparr>var_type = Float32, var_dims = [''y'', ''x''],
                   var_data = Arr2 rows_lat, valid_min = Some lo', valid_max = Some hi'\<rparr>),
               (dn, \<lparr>var_type = Float32, var_dims = [dn],
                   var_data = Arr1 ds, valid_min = None, valid_max = None\<rparr>),
               (''time_counter'', \<lparr>var_type = Float64, var_dims = [''time_counter''],
                   var_data = Arr1 ts, valid_min = None, valid_max = None\<rparr>),
               (vn, \<lparr>var_type = Float32, var_dims = [''time_counter'', dn, ''y'', ''x''],
                   var_data = Arr4 [(replicate (length ds)
                       (replicate (nat nyi) (replicate (nat nxi) fill_value)))[0 := frows]],
                   valid_min = None, valid_max = None\<rparr>)]\<rparr>"
proof -
  define D where "D = [(''x'', Some nxi), (''y'', Some nyi), (dn, Some (int n)),
               (''time_counter'', None :: int option)]"
  define F where "F = replicate (nat nyi) (replicate (nat nxi) fill_value)"
  define V1 where "V1 = \<lparr>var_type = Float32, var_dims = [''y'', ''x''],
                   var_data = Arr2 F, valid_min = None, valid_max = None\<rparr>"
  define V3 where "V3 = \<lparr>var_type = Float32, var_dims = [dn],
                   var_data = Arr1 (replicate n fill_value), valid_min = None, valid_max = None\<rparr>"
  define V4 where "V4 = \<lparr>var_type = Float64, var_dims = [''time_counter''],
                   var_data = Arr1 [], valid_min = None, valid_max = None\<rparr>"
  define V5 where "V5 = \<lparr>var_type = Float32, var_dims = [''time_counter'', dn, ''y'', ''x''],
                   var_data = Arr4 [], valid_min = None, valid_max = None\<rparr>"
  have nn: "0 \<le> nxi" "0 \<le> nyi"
    and d4: "d4 = \<lparr>dimensions = D, variables = []\<rparr>"
    using s(1,2,4,5) by (auto dest!: createDimension_Inr simp: empty_dataset_def D_def)
  have d9: "d9 = \<lparr>dimensions = D,
      variables = [(''nav_lon'', V1), (''nav_lat'', V1), (dn, V3), (''time_counter'', V4), (vn, V5)]\<rparr>"
    using s(6-10) names unfolding d4
    by (auto simp: createVariable_def dim_len_def D_def V1_def V3_def V4_def V5_def F_def)
  let ?vars9 = "[(''nav_lon'', V1), (''nav_lat'', V1), (dn, V3), (''time_counter'', V4), (vn, V5)]"
  have dist9: "distinct (map fst (variables d9))"
    using names by (auto simp: d9)
  have g9: "getvar d9 ''nav_lon'' = Inr V1"
    by (simp add: d9 getvar_def)
  from s(11) obtain v1 where
    l1: "foldl (\<lambda>acc i. bind_err acc (set_row i lon)) (Inr V1) (range_py nyi) = Inr v1"
    and d10: "d10 = d9\<lparr>variables := put_var ''nav_lon'' v1 (variables d9)\<rparr>"
    and n1: "n1 = nat nyi"
    unfolding for_loop_update_var_eq [OF g9 dist9]
    by (auto simp: range_py_def split: sum.splits)
  from fold_set_row_D [OF l1 [unfolded range_py_def]] obtain rows_lon where r1:
    "v1 = V1\<lparr>var_data := Arr2 rows_lon\<rparr>" "length rows_lon = nat nyi"
    "\<forall>i<nat nyi. lon = Some (Arr1 (rows_lon ! i)) \<and> length (rows_lon ! i) = nat nxi"
    by (fastforce simp: V1_def F_def)
  have r1': "\<forall>r \<in> set rows_lon. lon = Some (Arr1 r) \<and> length r = nat nxi"
    using r1(2,3) by (auto simp: in_set_conv_nth)
  have d12: "d12 = \<lparr>dimensions = D,
      variables = [(''nav_lon'', V1\<lparr>var_data := Arr2 rows_lon, valid_min := Some lo,
                       valid_max := Some hi\<rparr>),
                   (''nav_lat'', V1), (dn, V3), (''time_counter'', V4), (vn, V5)]\<rparr>"
    using s(12,13) names unfolding d10 d9 r1(1)
    by (auto simp: set_valid_min_def set_valid_max_def update_var_def getvar_def put_var_def)
  have dist12: "distinct (map fst (variables d12))"
    using names by (auto simp: d12)
  have g12: "getvar d12 ''nav_lat'' = Inr V1"
    by (simp add: d12 getvar_def)
  from s(14) obtain v2 where
    l2: "foldl (\<lambda>acc j. bind_err acc (set_col j lat)) (Inr V1) (range_py nxi) = Inr v2"
    and d13: "d13 = d12\<lparr>variables := put_var ''nav_lat'' v2 (variables d12)\<rparr>"
    and n2: "n2 = nat nxi"
    unfolding for_loop_update_var_eq [OF g12 dist12]
    by (auto simp: range_py_def split: sum.splits)
  from fold_set_col_D [OF l2 [unfolded range_py_def]] obtain rows_lat where r2:
    "v2 = V1\<lparr>var_data := Arr2 rows_lat\<rparr>" "length rows_lat = nat nyi"
    "\<forall>i<nat nyi. length (rows_lat ! i) = nat nxi"
    "\<forall>j<nat nxi. \<exists>xs. lat = Some (Arr1 xs) \<and> length xs = nat nyi
         \<and> (\<forall>i<nat nyi. rows_lat ! i ! j = xs ! i)"
    by (fastforce simp: V1_def F_def)
  have r2': "\<forall>r \<in> set rows_lat. length r = nat nxi"
    using r2(2,3) by (auto simp: in_set_conv_nth)
  have r2'': "\<forall>j<nat nxi. lat = Some (Arr1 (map (\<lambda>r. r ! j) rows_lat))"
  proof (intro allI impI)
    fix j assume "j < nat nxi"
    with r2(4) obtain xs where xs: "lat = Some (Arr1 xs)" "length xs = nat nyi"
      "\<forall>i<nat nyi. rows_lat ! i ! j = xs ! i" by blast
    have "map (\<lambda>r. r ! j) rows_lat = xs"
      using xs(2,3) r2(2) by (intro nth_equalityI) auto
    with xs(1) show "lat = Some (Arr1 (map (\<lambda>r. r ! j) rows_lat))" by simp
  qed
  have d15: "d15 = \<lparr>dimensions = D,
      variables = [(''nav_lon'', V1\<lparr>var_data := Arr2 rows_lon, valid_min := Some lo,
                       valid_max := Some hi\<rparr>),
                   (''nav_lat'', V1\<lparr>var_data := Arr2 rows_lat, valid_min := Some lo',
                       valid_max := Some hi'\<rparr>),
                   (dn, V3), (''time_counter'', V4), (vn, V5)]\<rparr>"
    using s(15,16) names unfolding d13 d12 r2(1)
    by (auto simp: set_valid_min_def set_valid_max_def update_var_def getvar_def put_var_def)
  from s(3) obtain ds where ds: "dep = Some ds" "n = length ds"
    by (auto simp: array_size_def split: option.splits)
  have d16: "d16 = \<lparr>dimensions = D,
      variables = [(''nav_lon'', V1\<lparr>var_data := Arr2 rows_lon, valid_min := Some lo,
                       valid_max := Some hi\<rparr>),
                   (''nav_lat'', V1\<lparr>var_data := Arr2 rows_lat, valid_min := Some lo',
                       valid_max := Some hi'\<rparr>),
                   (dn, V3\<lparr>var_data := Arr1 ds\<rparr>), (''time_counter'', V4), (vn, V5)]\<rparr>"
    using s(17) names unfolding d15 ds(1)
    by (auto simp: set_all_def update_var_def getvar_def put_var_def V3_def D_def
        split: if_splits)
  from s(18) obtain ts where ts: "tc = Some ts"
    unfolding d16 using names
    by (cases tc) (auto simp: set_all_def update_var_def getvar_def V4_def)
  have d17: "d17 = \<lparr>dimensions = D,
      variables = [(''nav_lon'', V1\<lparr>var_data := Arr2 rows_lon, valid_min := Some lo,
                       valid_max := Some hi\<rparr>),
                   (''nav_lat'', V1\<lparr>var_data := Arr2 rows_lat, valid_min := Some lo',
                       valid_max := Some hi'\<rparr>),
                   (dn, V3\<lparr>var_data := Arr1 ds\<rparr>),
                   (''time_counter'', V4\<lparr>var_data := Arr1 ts\<rparr>), (vn, V5)]\<rparr>"
    using s(18) names unfolding d16 ts
    by (auto simp: set_all_def update_var_def getvar_def put_var_def V4_def D_def
        split: if_splits)
  have gv: "getvar d17 vn = Inr V5"
    using names by (auto simp: d17 getvar_def)
  have dl: "dim_len d17 dn = Some n" "dim_len d17 ''y'' = Some (nat nyi)"
    "dim_len d17 ''x'' = Some (nat nxi)" "map_of (dimensions d17) ''time_counter'' = Some None"
    using names by (auto simp: d17 dim_len_def D_def)
  from s(19) obtain frows where fr:
    "fld = Some (Arr2 frows)" "n \<noteq> 0" "length frows = nat nyi"
    "\<forall>r \<in> set frows. length r = nat nxi"
    and f: "f = d17\<lparr>variables := put_var vn
        (V5\<lparr>var_data := Arr4 [(replicate n (replicate (nat nyi) (replicate (nat nxi) fill_value)))
                 [0 := frows]]\<rparr>) (variables d17)\<rparr>"
    unfolding set_slot00_def update_var_def gv
    by (auto simp: V5_def dl split: option.splits ndarray.splits if_splits)
  have "f = \<lparr>dimensions = D,
      variables = [(''nav_lon'', V1\<lparr>var_data := Arr2 rows_lon, valid_min := Some lo,
                       valid_max := Some hi\<rparr>),
                   (''nav_lat'', V1\<lparr>var_data := Arr2 rows_lat, valid_min := Some lo',
                       valid_max := Some hi'\<rparr>),
                   (dn, V3\<lparr>var_data := Arr1 ds\<rparr>),
                   (''time_counter'', V4\<lparr>var_data := Arr1 ts\<rparr>),
                   (vn, V5\<lparr>var_data := Arr4 [(replicate n (replicate (nat nyi)
                       (replicate (nat nxi) fill_value)))[0 := frows]]\<rparr>)]\<rparr>"
    using names unfolding f d17 by (auto simp: put_var_def)
  then show ?thesis
    using nn n1 n2 ds ts fr r1(2) r1' r2(2) r2' r2''
    by (simp add: D_def V1_def V3_def V4_def V5_def)
qed

lemma stagger_chain_I:
  fixes nxi nyi :: int and dn vn :: string
  assumes names: "dn \<notin> {''x'', ''y'', ''time_counter'', ''nav_lon'', ''nav_lat''}"
      "vn \<notin> {''x'', ''y'', ''time_counter'', ''nav_lon'', ''nav_lat''}" "vn \<noteq> dn"
    and pre: "0 \<le> nxi" "0 \<le> nyi" "ds \<noteq> []" "length lu = nat nxi" "length la = nat nyi"
      "length frows = nat nyi" "\<forall>r \<in> set frows. length r = nat nxi"
  shows "\<exists>d1 d2 d3 d4 d5 d6 d7 d8 d9 d10 d11 d12 d13 d14 d15 d16 d17.
      createDimension ''x'' (Some nxi) empty_dataset = Inr d1
    \<and> createDimension ''y'' (Some nyi) d1 = Inr d2
    \<and> createDimension dn (Some (int (length ds))) d2 = Inr d3
    \<and> createDimension ''time_counter'' None d3 = Inr d4
    \<and> createVariable ''nav_lon'' Float32 [''y'', ''x''] d4 = Inr d5
    \<and> createVariable ''nav_lat'' Float32 [''y'', ''x''] d5 = Inr d6
    \<and> createVariable dn Float32 [dn] d6 = Inr d7
    \<and> createVariable ''time_counter'' Float64 [''time_counter''] d7 = Inr d8
    \<and> createVariable vn Float32 [''time_counter'', dn, ''y'', ''x''] d8 = Inr d9
    \<and> for_loop (range_py nyi) (\<lambda>i. update_var ''nav_lon'' (set_row i (Some (Arr1 lu)))) (d9, 0)
          = Inr (d10, nat nyi)
    \<and> set_valid_min ''nav_lon'' lo d10 = Inr d11
    \<and> set_valid_max ''nav_lon'' hi d11 = Inr d12
    \<and> for_loop (range_py nxi) (\<lambda>j. update_var ''nav_lat'' (set_col j (Some (Arr1 la)))) (d12, 0)
          = Inr (d13, nat nxi)
    \<and> set_valid_min ''nav_lat'' lo' d13 = Inr d14
    \<and> set_valid_max ''nav_lat'' hi' d14 = Inr d15
    \<and> set_all dn (Some ds) d15 = Inr d16
    \<and> set_all ''time_counter'' (Some ts) d16 = Inr d17
    \<and> set_slot00 vn (Some (Arr2 frows)) d17 =
        Inr \<lparr>dimensions =
              [(''x'', Some nxi), (''y'', Some nyi), (dn, Some (int (length ds))),
               (''time_counter'', None)],
            variables =
              [(''nav_lon'', \<lparr>var_type = Float32, var_dims = [''y'', ''x''],
                   var_data = Arr2 (replicate (nat nyi) lu),
                   valid_min = Some lo, valid_max = Some hi\<rparr>),
               (''nav_lat'', \<lparr>var_type = Float32, var_dims = [''y'', ''x''],
                   var_data = Arr2 (map (replicate (nat nxi)) la),
                   valid_min = Some lo', valid_max = Some hi'\<rparr>),
               (dn, \<lparr>var_type = Float32, var_dims = [dn],
                   var_data = Arr1 ds, valid_min = None, valid_max = None\<rparr>),
               (''time_counter'', \<lparr>var_type = Float64, var_dims = [''time_counter''],
                   var_data = Arr1 ts, valid_min = None, valid_max = None\<rparr>),
               (vn, \<lparr>var_type = Float32, var_dims = [''time_counter'', dn, ''y'', ''x''],
                   var_data = Arr4 [(replicate (length ds)
                       (replicate (nat nyi) (replicate (nat nxi) fill_value)))[0 := frows]],
                   valid_min = None, valid_max = None\<rparr>)]\<rparr>"
proof -
  define D where "D = [(''x'', Some nxi), (''y'', Some nyi), (dn, Some (int (length ds))),
               (''time_counter'', None :: int option)]"
  define F where "F = replicate (nat nyi) (replicate (nat nxi) fill_value)"
  define V1 where "V1 = \<lparr>var_type = Float32, var_dims = [''y'', ''x''],
                   var_data = Arr2 F, valid_min = None, valid_max = None\<rparr>"
  define V3 where "V3 = \<lparr>var_type = Float32, var_dims = [dn],
        var_data = Arr1 (replicate (length ds) fill_value), valid_min = None, valid_max = None\<rparr>"
  define V4 where "V4 = \<lparr>var_type = Float64, var_dims = [''time_counter''],
                   var_data = Arr1 [], valid_min = None, valid_max = None\<rparr>"
  define V5 where "V5 = \<lparr>var_type = Float32, var_dims = [''time_counter'', dn, ''y'', ''x''],
                   var_data = Arr4 [], valid_min = None, valid_max = None\<rparr>"
  define W1 where "W1 = V1\<lparr>var_data := Arr2 (replicate (nat nyi) lu)\<rparr>"
  define W2 where "W2 = V1\<lparr>var_data := Arr2 (map (replicate (nat nxi)) la)\<rparr>"
  define e where "e = \<lparr>dimensions = D, variables = []\<rparr>"
  define d9 where "d9 = \<lparr>dimensions = D,
      variables = [(''nav_lon'', V1), (''nav_lat'', V1), (dn, V3), (''time_counter'', V4), (vn, V5)]\<rparr>"
  define d10 where "d10 = d9\<lparr>variables := put_var ''nav_lon'' W1 (variables d9)\<rparr>"
  define d12 where "d12 = \<lparr>dimensions = D,
      variables = [(''nav_lon'', W1\<lparr>valid_min := Some lo, valid_max := Some hi\<rparr>),
                   (''nav_lat'', V1), (dn, V3), (''time_counter'', V4), (vn, V5)]\<rparr>"
  define d13 where "d13 = d12\<lparr>variables := put_var ''nav_lat'' W2 (variables d12)\<rparr>"
  define d15 where "d15 = \<lparr>dimensions = D,
      variables = [(''nav_lon'', W1\<lparr>valid_min := Some lo, valid_max := Some hi\<rparr>),
                   (''nav_lat'', W2\<lparr>valid_min := Some lo', valid_max := Some hi'\<rparr>),
                   (dn, V3), (''time_counter'', V4), (vn, V5)]\<rparr>"
  have names': "''x'' \<noteq> dn" "''y'' \<noteq> dn" "''time_counter'' \<noteq> dn" "''nav_lon'' \<noteq> dn"
    "''nav_lat'' \<noteq> dn" "''x'' \<noteq> vn" "''y'' \<noteq> vn" "''time_counter'' \<noteq> vn"
    "''nav_lon'' \<noteq> vn" "''nav_lat'' \<noteq> vn" "dn \<noteq> vn"
    using names by auto
  have c: "\<exists>d1 d2 d3 d5 d6 d7 d8.
      createDimension ''x'' (Some nxi) empty_dataset = Inr d1
    \<and> createDimension ''y'' (Some nyi) d1 = Inr d2
    \<and> createDimension dn (Some (int (length ds))) d2 = Inr d3
    \<and> createDimension ''time_counter'' None d3 = Inr e
    \<and> createVariable ''nav_lon'' Float32 [''y'', ''x''] e = Inr d5
    \<and> createVariable ''nav_lat'' Float32 [''y'', ''x''] d5 = Inr d6
    \<and> createVariable dn Float32 [dn] d6 = Inr d7
    \<and> createVariable ''time_counter'' Float64 [''time_counter''] d7 = Inr d8
    \<and> createVariable vn Float32 [''time_counter'', dn, ''y'', ''x''] d8 = Inr d9"
    using names names' pre(1,2)
    by (simp add: createDimension_def createVariable_def dim_len_def empty_dataset_def e_def d9_def
        D_def V1_def V3_def V4_def V5_def F_def)
  have dist9: "distinct (map fst (variables d9))"
    using names by (auto simp: d9_def)
  have g9: "getvar d9 ''nav_lon'' = Inr V1"
    by (simp add: d9_def getvar_def)
  have l1: "for_loop (range_py nyi) (\<lambda>i. update_var ''nav_lon'' (set_row i (Some (Arr1 lu)))) (d9, 0)
      = Inr (d10, nat nyi)"
    unfolding for_loop_update_var_eq [OF g9 dist9] range_py_def
    using pre(4) by (subst fold_set_row_I [where rows = F]) (auto simp: V1_def F_def d10_def W1_def)
  have a12: "\<exists>d11. set_valid_min ''nav_lon'' lo d10 = Inr d11
      \<and> set_valid_max ''nav_lon'' hi d11 = Inr d12"
    using names names'
    by (simp add: set_valid_min_def set_valid_max_def update_var_def getvar_def put_var_def
        d10_def d9_def d12_def)
  have dist12: "distinct (map fst (variables d12))"
    using names by (auto simp: d12_def)
  have g12: "getvar d12 ''nav_lat'' = Inr V1"
    by (simp add: d12_def getvar_def)
  have m2: "map2 (\<lambda>row e. replicate (nat nxi) e @ drop (nat nxi) row) F la
      = map (replicate (nat nxi)) la"
    using pre(5) by (intro nth_equalityI) (auto simp: F_def)
  have l2: "for_loop (range_py nxi) (\<lambda>j. update_var ''nav_lat'' (set_col j (Some (Arr1 la)))) (d12, 0)
      = Inr (d13, nat nxi)"
    unfolding for_loop_update_var_eq [OF g12 dist12] range_py_def
    using pre(5)
    by (subst fold_set_col_I [where rows = F]) (auto simp: V1_def F_def d13_def W2_def m2 [unfolded F_def])
  have a15: "\<exists>d14. set_valid_min ''nav_lat'' lo' d13 = Inr d14
      \<and> set_valid_max ''nav_lat'' hi' d14 = Inr d15"
    using names names'
    by (simp add: set_valid_min_def set_valid_max_def update_var_def getvar_def put_var_def
        d13_def d12_def d15_def)
  have a17: "\<exists>d16 d17. set_all dn (Some ds) d15 = Inr d16
    \<and> set_all ''time_counter'' (Some ts) d16 = Inr d17
    \<and> set_slot00 vn (Some (Arr2 frows)) d17 =
        Inr \<lparr>dimensions = D,
            variables =
              [(''nav_lon'', W1\<lparr>valid_min := Some lo, valid_max := Some hi\<rparr>),
               (''nav_lat'', W2\<lparr>valid_min := Some lo', valid_max := Some hi'\<rparr>),
               (dn, V3\<lparr>var_data := Arr1 ds\<rparr>),
               (''time_counter'', V4\<lparr>var_data := Arr1 ts\<rparr>),
               (vn, V5\<lparr>var_data := Arr4 [(replicate (length ds)
                       (replicate (nat nyi) (replicate (nat nxi) fill_value)))[0 := frows]]\<rparr>)]\<rparr>"
    using names names' pre(3,6,7)
    by (simp add: set_all_def set_slot00_def update_var_def getvar_def put_var_def dim_len_def
        d15_def D_def V3_def V4_def V5_def)
  from c a12 a15 a17 l1 l2 show ?thesis
    unfolding D_def V1_def V3_def V4_def V5_def W1_def W2_def e_def
    by (elim exE conjE) (intro exI conjI; (assumption | simp))
qed

section \<open>Proofs: the two halves of writing\<close>

lemma write_U_D:
  assumes "write_U g = Inr (f, n1, n2)"
  shows "\<exists>ds ts rows_lon rows_lat frows lo hi lo' hi'.
      0 \<le> x g - 1 \<and> 0 \<le> y g \<and> n1 = nat (y g) \<and> n2 = nat (x g - 1)
    \<and> depth g = Some ds \<and> ds \<noteq> [] \<and> time_counter g = Some ts
    \<and> map_option np_transpose (U g) = Some (Arr2 frows)
    \<and> length frows = nat (y g) \<and> (\<forall>r \<in> set frows. length r = nat (x g - 1))
    \<and> length rows_lon = nat (y g)
    \<and> (\<forall>r \<in> set rows_lon. lon_u g = Some (Arr1 r) \<and> length r = nat (x g - 1))
    \<and> length rows_lat = nat (y g)
    \<and> (\<forall>r \<in> set rows_lat. length r = nat (x g - 1))
    \<and> (\<forall>j < nat (x g - 1). lat_u g = Some (Arr1 (map (\<lambda>r. r ! j) rows_lat)))
    \<and> f = \<lparr>dimensions =
              [(''x'', Some (x g - 1)), (''y'', Some (y g)), (''depthu'', Some (int (length ds))),
               (''time_counter'', None)],
            variables =
              [(''nav_lon'', \<lparr>var_type = Float32, var_dims = [''y'', ''x''],
                   var_data = Arr2 rows_lon, valid_min = Some lo, valid_max = Some hi\<rparr>),
               (''nav_lat'', \<lparr>var_type = Float32, var_dims = [''y'', ''x''],
                   var_data = Arr2 rows_lat, valid_min = Some lo', valid_max = Some hi'\<rparr>),
               (''depthu'', \<lparr>var_type = Float32, var_dims = [''depthu''],
                   var_data = Arr1 ds, valid_min = None, valid_max = None\<rparr>),
               (''time_counter'', \<lparr>var_type = Float64, var_dims = [''time_counter''],
                   var_data = Arr1 ts, valid_min = None, valid_max = None\<rparr>),
               (''vozocrtx'', \<lparr>var_type = Float32,
                   var_dims = [''time_counter'', ''depthu'', ''y'', ''x''],
                   var_data = Arr4 [(replicate (length ds)
                       (replicate (nat (y g)) (replicate (nat (x g - 1)) fill_value)))[0 := frows]],
                   valid_min = None, valid_max = None\<rparr>)]\<rparr>
    \<and> first_item (lon_u g) = Inr lo \<and> last_item (lon_u g) = Inr hi
    \<and> first_item (lat_u g) = Inr lo' \<and> last_item (lat_u g) = Inr hi'"
  using assms
proof (rule write_U_Inr_E)
  fix d1 d2 n d3 d4 d5 d6 d7 d8 d9 d10 lo d11 hi d12 d13 lo' d14 hi' d15 d16 d17
  assume s:
    "createDimension ''x'' (Some (x g - 1)) empty_dataset = Inr d1"
    "createDimension ''y'' (Some (y g)) d1 = Inr d2"
    "array_size (depth g) = Inr n"
    "createDimension ''depthu'' (Some (int n)) d2 = Inr d3"
    "createDimension ''time_counter'' None d3 = Inr d4"
    "createVariable ''nav_lon'' Float32 [''y'', ''x''] d4 = Inr d5"
    "createVariable ''nav_lat'' Float32 [''y'', ''x''] d5 = Inr d6"
    "createVariable ''depthu'' Float32 [''depthu''] d6 = Inr d7"
    "createVariable ''time_counter'' Float64 [''time_counter''] d7 = Inr d8"
    "createVariable ''vozocrtx'' Float32 [''time_counter'', ''depthu'', ''y'', ''x''] d8 = Inr d9"
    "for_loop (range_py (y g)) (\<lambda>i. update_var ''nav_lon'' (set_row i (lon_u g))) (d9, 0)
       = Inr (d10, n1)"
    "set_valid_min ''nav_lon'' lo d10 = Inr d11"
    "set_valid_max ''nav_lon'' hi d11 = Inr d12"
    "for_loop (range_py (x g - 1)) (\<lambda>j. update_var ''nav_lat'' (set_col j (lat_u g))) (d12, 0)
       = Inr (d13, n2)"
    "set_valid_min ''nav_lat'' lo' d13 = Inr d14"
    "set_valid_max ''nav_lat'' hi' d14 = Inr d15"
    "set_all ''depthu'' (depth g) d15 = Inr d16"
    "set_all ''time_counter'' (time_counter g) d16 = Inr d17"
    "set_slot00 ''vozocrtx'' (map_option np_transpose (U g)) d17 = Inr f"
    and i: "first_item (lon_u g) = Inr lo" "last_item (lon_u g) = Inr hi"
      "first_item (lat_u g) = Inr lo'" "last_item (lat_u g) = Inr hi'"
  show ?thesis
    using stagger_chain_D [OF _ _ _ s] i
    by simp
qed

lemma write_V_D:
  assumes "write_V g = Inr (f, n1, n2)"
  shows "\<exists>ds ts rows_lon rows_lat frows lo hi lo' hi'.
      0 \<le> x g \<and> 0 \<le> y g - 1 \<and> n1 = nat (y g - 1) \<and> n2 = nat (x g)
    \<and> depth g = Some ds \<and> ds \<noteq> [] \<and> time_counter g = Some ts
    \<and> map_option np_transpose (V g) = Some (Arr2 frows)
    \<and> length frows = nat (y g - 1) \<and> (\<forall>r \<in> set frows. length r = nat (x g))
    \<and> length rows_lon = nat (y g - 1)
    \<and> (\<forall>r \<in> set rows_lon. lon_v g = Some (Arr1 r) \<and> length r = nat (x g))
    \<and> length rows_lat = nat (y g - 1)
    \<and> (\<forall>r \<in> set rows_lat. length r = nat (x g))
    \<and> (\<forall>j < nat (x g). lat_v g = Some (Arr1 (map (\<lambda>r. r ! j) rows_lat)))
    \<and> f = \<lparr>dimensions =
              [(''x'', Some (x g)), (''y'', Some (y g - 1)), (''depthv'', Some (int (length ds))),
               (''time_counter'', None)],
            variables =
              [(''nav_lon'', \<lparr>var_type = Float32, var_dims = [''y'', ''x''],
                   var_data = Arr2 rows_lon, valid_min = Some lo, valid_max = Some hi\<rparr>),
               (''nav_lat'', \<lparr>var_type = Float32, var_dims = [''y'', ''x''],
                   var_data = Arr2 rows_lat, valid_min = Some lo', valid_max = Some hi'\<rparr>),
               (''depthv'', \<lparr>var_type = Float32, var_dims = [''depthv''],
                   var_data = Arr1 ds, valid_min = None, valid_max = None\<rparr>),
               (''time_counter'', \<lparr>var_type = Float64, var_dims = [''time_counter''],
                   var_data = Arr1 ts, valid_min = None, valid_max = None\<rparr>),
               (''vomecrty'', \<lparr>var_type = Float32,
                   var_dims = [''time_counter'', ''depthv'', ''y'', ''x''],
                   var_data = Arr4 [(replicate (length ds)
                       (replicate (nat (y g - 1)) (replicate (nat (x g)) fill_value)))[0 := frows]],
                   valid_min = None, valid_max = None\<rparr>)]\<rparr>
    \<and> first_item (lon_u g) = Inr lo \<and> last_item (lon_u g) = Inr hi
    \<and> first_item (lat_u g) = Inr lo' \<and> last_item (lat_u g) = Inr hi'"
  using assms
proof (rule write_V_Inr_E)
  fix d1 d2 n d3 d4 d5 d6 d7 d8 d9 d10 lo d11 hi d12 d13 lo' d14 hi' d15 d16 d17
  assume s:
    "createDimension ''x'' (Some (x g)) empty_dataset = Inr d1"
    "createDimension ''y'' (Some (y g - 1)) d1 = Inr d2"
    "array_size (depth g) = Inr n"
    "createDimension ''depthv'' (Some (int n)) d2 = Inr d3"
    "createDimension ''time_counter'' None d3 = Inr d4"
    "createVariable ''nav_lon'' Float32 [''y'', ''x''] d4 = Inr d5"
    "createVariable ''nav_lat'' Float32 [''y'', ''x''] d5 = Inr d6"
    "createVariable ''depthv'' Float32 [''depthv''] d6 = Inr d7"
    "createVariable ''time_counter'' Float64 [''time_counter''] d7 = Inr d8"
    "createVariable ''vomecrty'' Float32 [''time_counter'', ''depthv'', ''y'', ''x''] d8 = Inr d9"
    "for_loop (range_py (y g - 1)) (\<lambda>i. update_var ''nav_lon'' (set_row i (lon_v g))) (d9, 0)
       = Inr (d10, n1)"
    "set_valid_min ''nav_lon'' lo d10 = Inr d11"
    "set_valid_max ''nav_lon'' hi d11 = Inr d12"
    "for_loop (range_py (x g)) (\<lambda>j. update_var ''nav_lat'' (set_col j (lat_v g))) (d12, 0)
       = Inr (d13, n2)"
    "set_valid_min ''nav_lat'' lo' d13 = Inr d14"
    "set_valid_max ''nav_lat'' hi' d14 = Inr d15"
    "set_all ''depthv'' (depth g) d15 = Inr d16"
    "set_all ''time_counter'' (time_counter g) d16 = Inr d17"
    "set_slot00 ''vomecrty'' (map_option np_transpose (V g)) d17 = Inr f"
    and i: "first_item (lon_u g) = Inr lo" "last_item (lon_u g) = Inr hi"
      "first_item (lat_u g) = Inr lo'" "last_item (lat_u g) = Inr hi'"
  show ?thesis
    using stagger_chain_D [OF _ _ _ s] i
    by simp
qed

lemma write_U_I:
  assumes "depth g = Some ds" "ds \<noteq> []" "time_counter g = Some ts"
    and "lon_u g = Some (Arr1 lu)" "lu \<noteq> []" "length lu = nat (x g - 1)"
    and "lat_u g = Some (Arr1 la)" "la \<noteq> []" "length la = nat (y g)"
    and "U g = Some u" "np_transpose u = Arr2 frows"
    and "length frows = nat (y g)" "\<forall>r \<in> set frows. length r = nat (x g - 1)"
  shows "write_U g = Inr (\<lparr>dimensions =
              [(''x'', Some (x g - 1)), (''y'', Some (y g)), (''depthu'', Some (int (length ds))),
               (''time_counter'', None)],
            variables =
              [(''nav_lon'', \<lparr>var_type = Float32, var_dims = [''y'', ''x''],
                   var_data = Arr2 (replicate (nat (y g)) lu),
                   valid_min = Some (Scalar (hd lu)), valid_max = Some (Scalar (last lu))\<rparr>),
               (''nav_lat'', \<lparr>var_type = Float32, var_dims = [''y'', ''x''],
                   var_data = Arr2 (map (replicate (nat (x g - 1))) la),
                   valid_min = Some (Scalar (hd la)), valid_max = Some (Scalar (last la))\<rparr>),
               (''depthu'', \<lparr>var_type = Float32, var_dims = [''depthu''],
                   var_data = Arr1 ds, valid_min = None, valid_max = None\<rparr>),
               (''time_counter'', \<lparr>var_type = Float64, var_dims = [''time_counter''],
                   var_data = Arr1 ts, valid_min = None, valid_max = None\<rparr>),
               (''vozocrtx'', \<lparr>var_type = Float32,
                   var_dims = [''time_counter'', ''depthu'', ''y'', ''x''],
                   var_data = Arr4 [(replicate (length ds)
                       (replicate (nat (y g)) (replicate (nat (x g - 1)) fill_value)))[0 := frows]],
                   valid_min = None, valid_max = None\<rparr>)]\<rparr>, nat (y g), nat (x g - 1))"
proof -
  have nn: "0 \<le> x g - 1" "0 \<le> y g"
    using assms(5,6,8,9) by (auto simp: nat_eq_iff2 split: if_splits)
  from stagger_chain_I [where dn = "''depthu''" and vn = "''vozocrtx''" and lu = lu and la = la
      and ds = ds and ts = ts and frows = frows and lo = "Scalar (hd lu)" and hi = "Scalar (last lu)"
      and lo' = "Scalar (hd la)" and hi' = "Scalar (last la)", OF _ _ _ nn assms(2,6,9,12,13)]
  obtain d1 d2 d3 d4 d5 d6 d7 d8 d9 d10 d11 d12 d13 d14 d15 d16 d17 where
    "createDimension ''x'' (Some (x g - 1)) empty_dataset = Inr d1"
    "createDimension ''y'' (Some (y g)) d1 = Inr d2"
    "createDimension ''depthu'' (Some (int (length ds))) d2 = Inr d3"
    "createDimension ''time_counter'' None d3 = Inr d4"
    "createVariable ''nav_lon'' Float32 [''y'', ''x''] d4 = Inr d5"
    "createVariable ''nav_lat'' Float32 [''y'', ''x''] d5 = Inr d6"
    "createVariable ''depthu'' Float32 [''depthu''] d6 = Inr d7"
    "createVariable ''time_counter'' Float64 [''time_counter''] d7 = Inr d8"
    "createVariable ''vozocrtx'' Float32 [''time_counter'', ''depthu'', ''y'', ''x''] d8 = Inr d9"
    "for_loop (range_py (y g)) (\<lambda>i. update_var ''nav_lon'' (set_row i (Some (Arr1 lu)))) (d9, 0)
          = Inr (d10, nat (y g))"
    "set_valid_min ''nav_lon'' (Scalar (hd lu)) d10 = Inr d11"
    "set_valid_max ''nav_lon'' (Scalar (last lu)) d11 = Inr d12"
    "for_loop (range_py (x g - 1)) (\<lambda>j. update_var ''nav_lat'' (set_col j (Some (Arr1 la)))) (d12, 0)
          = Inr (d13, nat (x g - 1))"
    "set_valid_min ''nav_lat'' (Scalar (hd la)) d13 = Inr d14"
    "set_valid_max ''nav_lat'' (Scalar (last la)) d14 = Inr d15"
    "set_all ''depthu'' (Some ds) d15 = Inr d16"
    "set_all ''time_counter'' (Some ts) d16 = Inr d17"
    "set_slot00 ''vozocrtx'' (Some (Arr2 frows)) d17 = Inr \<lparr>dimensions =
              [(''x'', Some (x g - 1)), (''y'', Some (y g)), (''depthu'', Some (int (length ds))),
               (''time_counter'', None)],
            variables =
              [(''nav_lon'', \<lparr>var_type = Float32, var_dims = [''y'', ''x''],
                   var_data = Arr2 (replicate (nat (y g)) lu),
                   valid_min = Some (Scalar (hd lu)), valid_max = Some (Scalar (last lu))\<rparr>),
               (''nav_lat'', \<lparr>var_type = Float32, var_dims = [''y'', ''x''],
                   var_data = Arr2 (map (replicate (nat (x g - 1))) la),
                   valid_min = Some (Scalar (hd la)), valid_max = Some (Scalar (last la))\<rparr>),
               (''depthu'', \<lparr>var_type = Float32, var_dims = [''depthu''],
                   var_data = Arr1 ds, valid_min = None, valid_max = None\<rparr>),
               (''time_counter'', \<lparr>var_type = Float64, var_dims = [''time_counter''],
                   var_data = Arr1 ts, valid_min = None, valid_max = None\<rparr>),
               (''vozocrtx'', \<lparr>var_type = Float32,
                   var_dims = [''time_counter'', ''depthu'', ''y'', ''x''],
                   var_data = Arr4 [(replicate (length ds)
                       (replicate (nat (y g)) (replicate (nat (x g - 1)) fill_value)))[0 := frows]],
                   valid_min = None, valid_max = None\<rparr>)]\<rparr>"
    by auto
  then show ?thesis
    using assms(1,3,4,5,7,8,10,11)
    by (simp add: write_U_def U_lon_broadcast_def U_lat_broadcast_def array_size_def)
qed

lemma write_V_I:
  assumes "depth g = Some ds" "ds \<noteq> []" "time_counter g = Some ts"
    and "lon_u g = Some (Arr1 lu)" "lu \<noteq> []" "lon_v g = Some (Arr1 lv)" "length lv = nat (x g)"
    and "lat_u g = Some (Arr1 la)" "la \<noteq> []" "lat_v g = Some (Arr1 lb)" "length lb = nat (y g - 1)"
    and "0 \<le> x g" "0 \<le> y g - 1"
    and "V g = Some u" "np_transpose u = Arr2 frows"
    and "length frows = nat (y g - 1)" "\<forall>r \<in> set frows. length r = nat (x g)"
  shows "write_V g = Inr (\<lparr>dimensions =
              [(''x'', Some (x g)), (''y'', Some (y g - 1)), (''depthv'', Some (int (length ds))),
               (''time_counter'', None)],
            variables =
              [(''nav_lon'', \<lparr>var_type = Float32, var_dims = [''y'', ''x''],
                   var_data = Arr2 (replicate (nat (y g - 1)) lv),
                   valid_min = Some (Scalar (hd lu)), valid_max = Some (Scalar (last lu))\<rparr>),
               (''nav_lat'', \<lparr>var_type = Float32, var_dims = [''y'', ''x''],
                   var_data = Arr2 (map (replicate (nat (x g))) lb),
                   valid_min = Some (Scalar (hd la)), valid_max = Some (Scalar (last la))\<rparr>),
               (''depthv'', \<lparr>var_type = Float32, var_dims = [''depthv''],
                   var_data = Arr1 ds, valid_min = None, valid_max = None\<rparr>),
               (''time_counter'', \<lparr>var_type = Float64, var_dims = [''time_counter''],
                   var_data = Arr1 ts, valid_min = None, valid_max = None\<rparr>),
               (''vomecrty'', \<lparr>var_type = Float32,
                   var_dims = [''time_counter'', ''depthv'', ''y'', ''x''],
                   var_data = Arr4 [(replicate (length ds)
                       (replicate (nat (y g - 1)) (replicate (nat (x g)) fill_value)))[0 := frows]],
                   valid_min = None, valid_max = None\<rparr>)]\<rparr>, nat (y g - 1), nat (x g))"
proof -
  have nn: "0 \<le> x g" "0 \<le> y g - 1"
    using assms by simp_all
  from stagger_chain_I [where dn = "''depthv''" and vn = "''vomecrty''" and lu = lv and la = lb
      and ds = ds and ts = ts and frows = frows and lo = "Scalar (hd lu)" and hi = "Scalar (last lu)"
      and lo' = "Scalar (hd la)" and hi' = "Scalar (last la)", OF _ _ _ nn assms(2,7,11,16,17)]
  obtain d1 d2 d3 d4 d5 d6 d7 d8 d9 d10 d11 d12 d13 d14 d15 d16 d17 where
    "createDimension ''x'' (Some (x g)) empty_dataset = Inr d1"
    "createDimension ''y'' (Some (y g - 1)) d1 = Inr d2"
    "createDimension ''depthv'' (Some (int (length ds))) d2 = Inr d3"
    "createDimension ''time_counter'' None d3 = Inr d4"
    "createVariable ''nav_lon'' Float32 [''y'', ''x''] d4 = Inr d5"
    "createVariable ''nav_lat'' Float32 [''y'', ''x''] d5 = Inr d6"
    "createVariable ''depthv'' Float32 [''depthv''] d6 = Inr d7"
    "createVariable ''time_counter'' Float64 [''time_counter''] d7 = Inr d8"
    "createVariable ''vomecrty'' Float32 [''time_counter'', ''depthv'', ''y'', ''x''] d8 = Inr d9"
    "for_loop (range_py (y g - 1)) (\<lambda>i. update_var ''nav_lon'' (set_row i (Some (Arr1 lv)))) (d9, 0)
          = Inr (d10, nat (y g - 1))"
    "set_valid_min ''nav_lon'' (Scalar (hd lu)) d10 = Inr d11"
    "set_valid_max ''nav_lon'' (Scalar (last lu)) d11 = Inr d12"
    "for_loop (range_py (x g)) (\<lambda>j. update_var ''nav_lat'' (set_col j (Some (Arr1 lb)))) (d12, 0)
          = Inr (d13, nat (x g))"
    "set_valid_min ''nav_lat'' (Scalar (hd la)) d13 = Inr d14"
    "set_valid_max ''nav_lat'' (Scalar (last la)) d14 = Inr d15"
    "set_all ''depthv'' (Some ds) d15 = Inr d16"
    "set_all ''time_counter'' (Some ts) d16 = Inr d17"
    "set_slot00 ''vomecrty'' (Some (Arr2 frows)) d17 = Inr \<lparr>dimensions =
              [(''x'', Some (x g)), (''y'', Some (y g - 1)), (''depthv'', Some (int (length ds))),
               (''time_counter'', None)],
            variables =
              [(''nav_lon'', \<lparr>var_type = Float32, var_dims = [''y'', ''x''],
                   var_data = Arr2 (replicate (nat (y g - 1)) lv),
                   valid_min = Some (Scalar (hd lu)), valid_max = Some (Scalar (last lu))\<rparr>),
               (''nav_lat'', \<lparr>var_type = Float32, var_dims = [''y'', ''x''],
                   var_data = Arr2 (map (replicate (nat (x g))) lb),
                   valid_min = Some (Scalar (hd la)), valid_max = Some (Scalar (last la))\<rparr>),
               (''depthv'', \<lparr>var_type = Float32, var_dims = [''depthv''],
                   var_data = Arr1 ds, valid_min = None, valid_max = None\<rparr>),
               (''time_counter'', \<lparr>var_type = Float64, var_dims = [''time_counter''],
                   var_data = Arr1 ts, valid_min = None, valid_max = None\<rparr>),
               (''vomecrty'', \<lparr>var_type = Float32,
                   var_dims = [''time_counter'', ''depthv'', ''y'', ''x''],
                   var_data = Arr4 [(replicate (length ds)
                       (replicate (nat (y g - 1)) (replicate (nat (x g)) fill_value)))[0 := frows]],
                   valid_min = None, valid_max = None\<rparr>)]\<rparr>"
    by auto
  then show ?thesis
    using assms(1,3,4,5,6,8,9,10,14,15)
    by (simp add: write_V_def V_lon_broadcast_def V_lat_broadcast_def array_size_def)
qed


lemma NEMOGrid_write_D:
  assumes "NEMOGrid_write w self filename = Inr (w', self')"
  shows "\<exists>du a b dv c d. write_U self = Inr (du, a, b) \<and> write_V self = Inr (dv, c, d)
     \<and> w' = w\<lparr>files := (files w)(filename @ ''_U'' \<mapsto> du, filename @ ''_V'' \<mapsto> dv)\<rparr>
     \<and> self' = self \<and> writable w (filename @ ''_U'') \<and> writable w (filename @ ''_V'')"
  using assms
  by (auto simp: NEMOGrid_write_def Let_def open_write_def bind_err_eq_Inr split: if_splits)

lemma NEMOGrid_write_I:
  assumes "write_U self = Inr (du, a, b)" "write_V self = Inr (dv, c, d)"
    and "writable w (filename @ ''_U'')" "writable w (filename @ ''_V'')"
  shows "NEMOGrid_write w self filename =
     Inr (w\<lparr>files := (files w)(filename @ ''_U'' \<mapsto> du, filename @ ''_V'' \<mapsto> dv)\<rparr>, self)"
  using assms by (simp add: NEMOGrid_write_def Let_def open_write_def)

section \<open>Proofs: the worked grid\<close>

lemma example_write_U: "write_U example_grid = Inr (example_U, 3, 2)"
proof -
  have t: "transpose_rows [[Fin 2, NaN, Fin 2], [Fin 2, Fin 2, Fin 2]] =
      [[Fin 2, Fin 2], [NaN, Fin 2], [Fin 2, Fin 2]]"
    by code_simp
  have "write_U example_grid = Inr (example_U, nat (y example_grid), nat (x example_grid - 1))"
    by (subst write_U_I [where ds = "[Fin 0]" and ts = "[Fin 0]" and lu = "[Fin 1, Fin 3]"
          and la = "[Fin 0, Fin 2, Fin 4]" and frows = "[[Fin 2, Fin 2], [NaN, Fin 2], [Fin 2, Fin 2]]"
          and u = "Arr2 [[Fin 2, NaN, Fin 2], [Fin 2, Fin 2, Fin 2]]"])
       (simp_all add: example_grid_def class_defaults_def example_U_def t eval_nat_numeral)
  then show ?thesis by (simp add: example_grid_def class_defaults_def)
qed

lemma example_write_V: "write_V example_grid = Inr (example_V, 2, 3)"
proof -
  have t: "transpose_rows [[Fin 1, Fin 1], [Fin 1, Fin 1], [Fin 1, Fin 1]] =
      [[Fin 1, Fin 1, Fin 1], [Fin 1, Fin 1, Fin 1]]"
    by code_simp
  have "write_V example_grid = Inr (example_V, nat (y example_grid - 1), nat (x example_grid))"
    by (subst write_V_I [where ds = "[Fin 0]" and ts = "[Fin 0]" and lu = "[Fin 1, Fin 3]"
          and la = "[Fin 0, Fin 2, Fin 4]" and lv = "[Fin 0, Fin 2, Fin 4]" and lb = "[Fin 1, Fin 3]"
          and frows = "[[Fin 1, Fin 1, Fin 1], [Fin 1, Fin 1, Fin 1]]"
          and u = "Arr2 [[Fin 1, Fin 1], [Fin 1, Fin 1], [Fin 1, Fin 1]]"])
       (simp_all add: example_grid_def class_defaults_def example_V_def t eval_nat_numeral)
  then show ?thesis by (simp add: example_grid_def class_defaults_def)
qed

lemma example_write:
  "NEMOGrid_write example_world example_grid ''out'' = Inr (example_written, example_grid)"
  using NEMOGrid_write_I [OF example_write_U example_write_V, of example_world "''out''"]
  by (simp add: example_world_def example_written_def)


section \<open>The claims about the written files\<close>

lemma sibling_paths_differ [simp]: "filename @ ''_U'' \<noteq> filename @ ''_V''"
  by simp

text \<open>
  C2 (stagger invariant).  When \<open>write\<close> returns, the U file declares dimension \<open>x\<close> with
  size \<open>self.x - 1\<close> and \<open>y\<close> with size \<open>self.y\<close>, and the V file declares \<open>x\<close> with size
  \<open>self.x\<close> and \<open>y\<close> with size \<open>self.y - 1\<close>.
\<close>

theorem stagger_dimensions:
  assumes "NEMOGrid_write w self filename = Inr (w', self')"
  shows "\<exists>du dv. files w' (filename @ ''_U'') = Some du \<and> files w' (filename @ ''_V'') = Some dv
    \<and> map_of (dimensions du) ''x'' = Some (Some (x self - 1))
    \<and> map_of (dimensions du) ''y'' = Some (Some (y self))
    \<and> map_of (dimensions dv) ''x'' = Some (Some (x self))
    \<and> map_of (dimensions dv) ''y'' = Some (Some (y self - 1))"
proof -
  from NEMOGrid_write_D [OF assms] obtain du a b dv c d where
    u: "write_U self = Inr (du, a, b)" and v: "write_V self = Inr (dv, c, d)"
    and w': "w' = w\<lparr>files := (files w)(filename @ ''_U'' \<mapsto> du, filename @ ''_V'' \<mapsto> dv)\<rparr>"
    by blast
  from write_U_D [OF u] have
    "map_of (dimensions du) ''x'' = Some (Some (x self - 1))
     \<and> map_of (dimensions du) ''y'' = Some (Some (y self))"
    by auto
  moreover from write_V_D [OF v] have
    "map_of (dimensions dv) ''x'' = Some (Some (x self))
     \<and> map_of (dimensions dv) ''y'' = Some (Some (y self - 1))"
    by auto
  ultimately show ?thesis
    using w' by simp
qed

theorem stagger_dimensions_witness:
  "NEMOGrid_write example_world example_grid ''out'' = Inr (example_written, example_grid)
   \<and> (\<exists>du dv. files example_written ''out_U'' = Some du \<and> files example_written ''out_V'' = Some dv
        \<and> map_of (dimensions du) ''x'' = Some (Some 2) \<and> map_of (dimensions du) ''y'' = Some (Some 3)
        \<and> map_of (dimensions dv) ''x'' = Some (Some 3) \<and> map_of (dimensions dv) ''y'' = Some (Some 2))"
  using stagger_dimensions [OF example_write] example_write
  by (simp add: example_grid_def class_defaults_def)

lemma write_V_broadcasts:
  assumes "write_V g = Inr (f, n_lon, n_lat)"
  shows "\<exists>d d' e e'. V_lon_broadcast g d = Inr (d', n_lon) \<and> V_lat_broadcast g e = Inr (e', n_lat)"
  using assms
  by (auto simp: write_V_def bind_err_eq_Inr)

text \<open>
  C6 (loop counts of the V half), as the code has it.  In a V half that runs to its end, the
  longitude broadcast loop (lines 103-104, which stores the line \<open>lon_v\<close> in a row of
  \<open>nav_lon\<close>) makes exactly \<open>y - 1\<close> iterations, one for each row of \<open>nav_lon\<close>, and the
  latitude broadcast loop (lines 107-108, which stores the line \<open>lat_v\<close> in a column of
  \<open>nav_lat\<close>) makes exactly \<open>x\<close> iterations, one for each column of \<open>nav_lat\<close>.
\<close>

theorem write_V_broadcast_iterations:
  assumes "write_V g = Inr (f, n_lon, n_lat)"
  shows "\<exists>d d' e e' c vlon b vlat.
      V_lon_broadcast g d = Inr (d', n_lon) \<and> int n_lon = y g - 1
    \<and> V_lat_broadcast g e = Inr (e', n_lat) \<and> int n_lat = x g
    \<and> getvar f ''nav_lon'' = Inr c \<and> var_data c = Arr2 vlon
    \<and> length vlon = n_lon \<and> (\<forall>r \<in> set vlon. lon_v g = Some (Arr1 r))
    \<and> getvar f ''nav_lat'' = Inr b \<and> var_data b = Arr2 vlat
    \<and> (\<forall>r \<in> set vlat. length r = n_lat)
    \<and> (\<forall>j < n_lat. lat_v g = Some (Arr1 (map (\<lambda>r. r ! j) vlat)))"
proof -
  from write_V_broadcasts [OF assms] obtain d d' e e' where
    l: "V_lon_broadcast g d = Inr (d', n_lon)" "V_lat_broadcast g e = Inr (e', n_lat)"
    by blast
  from write_V_D [OF assms] obtain c b vlon vlat where V:
    "int n_lon = y g - 1" "int n_lat = x g"
    "getvar f ''nav_lon'' = Inr c" "var_data c = Arr2 vlon"
    "length vlon = n_lon" "\<forall>r \<in> set vlon. lon_v g = Some (Arr1 r)"
    "getvar f ''nav_lat'' = Inr b" "var_data b = Arr2 vlat"
    "\<forall>r \<in> set vlat. length r = n_lat"
    "\<forall>j < n_lat. lat_v g = Some (Arr1 (map (\<lambda>r. r ! j) vlat))"
    by (fastforce simp: getvar_def)
  with l show ?thesis by blast
qed

theorem write_V_broadcast_iterations_witness:
  "write_V example_grid = Inr (example_V, 2, 3)
   \<and> (\<exists>d d' e e' c vlon b vlat.
      V_lon_broadcast example_grid d = Inr (d', 2) \<and> int 2 = y example_grid - 1
    \<and> V_lat_broadcast example_grid e = Inr (e', 3) \<and> int 3 = x example_grid
    \<and> getvar example_V ''nav_lon'' = Inr c \<and> var_data c = Arr2 vlon
    \<and> length vlon = 2 \<and> (\<forall>r \<in> set vlon. lon_v example_grid = Some (Arr1 r))
    \<and> getvar example_V ''nav_lat'' = Inr b \<and> var_data b = Arr2 vlat
    \<and> (\<forall>r \<in> set vlat. length r = 3)
    \<and> (\<forall>j < 3. lat_v example_grid = Some (Arr1 (map (\<lambda>r. r ! j) vlat))))"
  by (rule conjI [OF example_write_V write_V_broadcast_iterations [OF example_write_V]])

text \<open>
  The claim as it was made gives \<open>y - 1\<close> iterations to the latitude broadcast and \<open>x\<close> to
  the longitude broadcast.  On the worked grid, \<open>x = 3\<close> and \<open>y - 1 = 2\<close>; run on the dataset
  that \<open>write_V\<close> returns, the latitude broadcast makes 3 iterations and the longitude
  broadcast 2, which are the two counters of \<open>write_V\<close>.
\<close>

theorem write_V_broadcast_iterations_counterexample:
  "write_V example_grid = Inr (example_V, 2, 3)
   \<and> V_lon_broadcast example_grid example_V = Inr (example_V, 2)
   \<and> V_lat_broadcast example_grid example_V = Inr (example_V, 3)
   \<and> x example_grid = 3 \<and> y example_grid - 1 = 2
   \<and> \<not> (V_lat_broadcast example_grid example_V = Inr (example_V, nat (y example_grid - 1)))
   \<and> \<not> (V_lon_broadcast example_grid example_V = Inr (example_V, nat (x example_grid)))"
proof -
  have lon: "V_lon_broadcast example_grid example_V = Inr (example_V, 2)"
    by (simp add: V_lon_broadcast_def range_py_def example_grid_def class_defaults_def
        example_V_def update_var_def getvar_def put_var_def set_row_def upt_rec numeral_2_eq_2)
  have lat: "V_lat_broadcast example_grid example_V = Inr (example_V, 3)"
    by (simp add: V_lat_broadcast_def range_py_def example_grid_def class_defaults_def
        example_V_def update_var_def getvar_def put_var_def set_col_def upt_rec numeral_3_eq_3)
  show ?thesis
    using example_write_V lon lat by (simp add: example_grid_def class_defaults_def)
qed

text \<open>
  C4 (broadcast correctness).  When \<open>write\<close> returns, every row of the U file's \<open>nav_lon\<close>
  is the line \<open>lon_u\<close> and every column of its \<open>nav_lat\<close> is the line \<open>lat_u\<close>; every row of
  the V file's \<open>nav_lon\<close> is the line \<open>lon_v\<close> and every column of its \<open>nav_lat\<close> is the
  line \<open>lat_v\<close>.  The U arrays have \<open>y\<close> rows of \<open>x - 1\<close> cells, the V arrays \<open>y - 1\<close> rows
  of \<open>x\<close> cells.
\<close>

theorem broadcast_rows_and_columns:
  assumes "NEMOGrid_write w self filename = Inr (w', self')"
  shows "\<exists>du dv ulon ulat vlon vlat a b c d.
      files w' (filename @ ''_U'') = Some du \<and> files w' (filename @ ''_V'') = Some dv
    \<and> getvar du ''nav_lon'' = Inr a \<and> var_data a = Arr2 ulon
    \<and> getvar du ''nav_lat'' = Inr b \<and> var_data b = Arr2 ulat
    \<and> getvar dv ''nav_lon'' = Inr c \<and> var_data c = Arr2 vlon
    \<and> getvar dv ''nav_lat'' = Inr d \<and> var_data d = Arr2 vlat
    \<and> length ulon = nat (y self) \<and> (\<forall>r \<in> set ulon. lon_u self = Some (Arr1 r))
    \<and> length ulat = nat (y self) \<and> (\<forall>r \<in> set ulat. length r = nat (x self - 1))
    \<and> (\<forall>j < nat (x self - 1). lat_u self = Some (Arr1 (map (\<lambda>r. r ! j) ulat)))
    \<and> length vlon = nat (y self - 1) \<and> (\<forall>r \<in> set vlon. lon_v self = Some (Arr1 r))
    \<and> length vlat = nat (y self - 1) \<and> (\<forall>r \<in> set vlat. length r = nat (x self))
    \<and> (\<forall>j < nat (x self). lat_v self = Some (Arr1 (map (\<lambda>r. r ! j) vlat)))"
proof -
  from NEMOGrid_write_D [OF assms] obtain du n1 n2 dv m1 m2 where
    u: "write_U self = Inr (du, n1, n2)" and v: "write_V self = Inr (dv, m1, m2)"
    and w': "w' = w\<lparr>files := (files w)(filename @ ''_U'' \<mapsto> du, filename @ ''_V'' \<mapsto> dv)\<rparr>"
    by blast
  from write_U_D [OF u] obtain a b ulon ulat where U:
    "getvar du ''nav_lon'' = Inr a" "var_data a = Arr2 ulon"
    "getvar du ''nav_lat'' = Inr b" "var_data b = Arr2 ulat"
    "length ulon = nat (y self)" "\<forall>r \<in> set ulon. lon_u self = Some (Arr1 r)"
    "length ulat = nat (y self)" "\<forall>r \<in> set ulat. length r = nat (x self - 1)"
    "\<forall>j < nat (x self - 1). lat_u self = Some (Arr1 (map (\<lambda>r. r ! j) ulat))"
    by (fastforce simp: getvar_def)
  from write_V_D [OF v] obtain c d vlon vlat where V:
    "getvar dv ''nav_lon'' = Inr c" "var_data c = Arr2 vlon"
    "getvar dv ''nav_lat'' = Inr d" "var_data d = Arr2 vlat"
    "length vlon = nat (y self - 1)" "\<forall>r \<in> set vlon. lon_v self = Some (Arr1 r)"
    "length vlat = nat (y self - 1)" "\<forall>r \<in> set vlat. length r = nat (x self)"
    "\<forall>j < nat (x self). lat_v self = Some (Arr1 (map (\<lambda>r. r ! j) vlat))"
    by (fastforce simp: getvar_def)
  have "files w' (filename @ ''_U'') = Some du" "files w' (filename @ ''_V'') = Some dv"
    using w' by simp_all
  with U V show ?thesis by blast
qed

theorem broadcast_rows_and_columns_witness:
  "NEMOGrid_write example_world example_grid ''out'' = Inr (example_written, example_grid)
   \<and> (\<exists>du dv ulon ulat vlon vlat a b c d.
      files example_written (''out'' @ ''_U'') = Some du
    \<and> files example_written (''out'' @ ''_V'') = Some dv
    \<and> getvar du ''nav_lon'' = Inr a \<and> var_data a = Arr2 ulon
    \<and> getvar du ''nav_lat'' = Inr b \<and> var_data b = Arr2 ulat
    \<and> getvar dv ''nav_lon'' = Inr c \<and> var_data c = Arr2 vlon
    \<and> getvar dv ''nav_lat'' = Inr d \<and> var_data d = Arr2 vlat
    \<and> length ulon = nat (y example_grid)
    \<and> (\<forall>r \<in> set ulon. lon_u example_grid = Some (Arr1 r))
    \<and> length ulat = nat (y example_grid)
    \<and> (\<forall>r \<in> set ulat. length r = nat (x example_grid - 1))
    \<and> (\<forall>j < nat (x example_grid - 1). lat_u example_grid = Some (Arr1 (map (\<lambda>r. r ! j) ulat)))
    \<and> length vlon = nat (y example_grid - 1)
    \<and> (\<forall>r \<in> set vlon. lon_v example_grid = Some (Arr1 r))
    \<and> length vlat = nat (y example_grid - 1)
    \<and> (\<forall>r \<in> set vlat. length r = nat (x example_grid))
    \<and> (\<forall>j < nat (x example_grid). lat_v example_grid = Some (Arr1 (map (\<lambda>r. r ! j) vlat))))"
  by (rule conjI [OF example_write broadcast_rows_and_columns [OF example_write]])

text \<open>
  C5 (metadata of the V file).  When \<open>write\<close> returns, \<open>valid_min\<close> and \<open>valid_max\<close> of the
  V file's \<open>nav_lon\<close> are \<open>lon_u[0]\<close> and \<open>lon_u[-1]\<close>, and those of its \<open>nav_lat\<close> are
  \<open>lat_u[0]\<close> and \<open>lat_u[-1]\<close>: the first and last values of the U lines, which \<open>lon_u\<close>
  and \<open>lat_u\<close> are bound to be in a write that returns.  The V lines play no part.
\<close>

theorem V_file_valid_range:
  assumes "NEMOGrid_write w self filename = Inr (w', self')"
  shows "\<exists>dv c d lu la.
      files w' (filename @ ''_V'') = Some dv
    \<and> getvar dv ''nav_lon'' = Inr c \<and> getvar dv ''nav_lat'' = Inr d
    \<and> lon_u self = Some (Arr1 lu) \<and> lu \<noteq> [] \<and> lat_u self = Some (Arr1 la) \<and> la \<noteq> []
    \<and> valid_min c = Some (Scalar (hd lu)) \<and> valid_max c = Some (Scalar (last lu))
    \<and> valid_min d = Some (Scalar (hd la)) \<and> valid_max d = Some (Scalar (last la))"
proof -
  from NEMOGrid_write_D [OF assms] obtain du n1 n2 dv m1 m2 where
    u: "write_U self = Inr (du, n1, n2)" and v: "write_V self = Inr (dv, m1, m2)"
    and w': "w' = w\<lparr>files := (files w)(filename @ ''_U'' \<mapsto> du, filename @ ''_V'' \<mapsto> dv)\<rparr>"
    by blast
  from write_V_D [OF v] obtain c d lo hi lo' hi' where V:
    "0 \<le> y self - 1"
    "getvar dv ''nav_lon'' = Inr c" "getvar dv ''nav_lat'' = Inr d"
    "valid_min c = Some lo" "valid_max c = Some hi" "valid_min d = Some lo'" "valid_max d = Some hi'"
    "first_item (lon_u self) = Inr lo" "last_item (lon_u self) = Inr hi"
    "first_item (lat_u self) = Inr lo'" "last_item (lat_u self) = Inr hi'"
    by (fastforce simp: getvar_def)
  from write_U_D [OF u] obtain rows_lon rows_lat where U:
    "length rows_lon = nat (y self)"
    "\<forall>r \<in> set rows_lon. lon_u self = Some (Arr1 r) \<and> length r = nat (x self - 1)"
    "\<forall>j < nat (x self - 1). lat_u self = Some (Arr1 (map (\<lambda>r. r ! j) rows_lat))"
    by blast
  from V(1) U(1) have "rows_lon \<noteq> []" by auto
  then obtain lu where lu: "lon_u self = Some (Arr1 lu)" "length lu = nat (x self - 1)"
    using U(2) by (cases rows_lon) auto
  from V(8) lu(1) have lu': "lu \<noteq> []" "lo = Scalar (hd lu)"
    by (auto split: if_splits)
  from V(9) lu(1) have hi: "hi = Scalar (last lu)"
    by (auto split: if_splits)
  from lu'(1) have "0 < length lu" by simp
  with lu(2) have "0 < nat (x self - 1)" by simp
  with U(3) obtain la where la: "lat_u self = Some (Arr1 la)" by blast
  from V(10,11) la have la': "la \<noteq> []" "lo' = Scalar (hd la)" "hi' = Scalar (last la)"
    by (auto split: if_splits)
  have "files w' (filename @ ''_V'') = Some dv"
    using w' by simp
  with V(2-7) lu(1) lu' hi la la' show ?thesis by blast
qed

theorem V_file_valid_range_witness:
  "NEMOGrid_write example_world example_grid ''out'' = Inr (example_written, example_grid)
   \<and> (\<exists>dv c d lu la.
      files example_written (''out'' @ ''_V'') = Some dv
    \<and> getvar dv ''nav_lon'' = Inr c \<and> getvar dv ''nav_lat'' = Inr d
    \<and> lon_u example_grid = Some (Arr1 lu) \<and> lu \<noteq> []
    \<and> lat_u example_grid = Some (Arr1 la) \<and> la \<noteq> []
    \<and> valid_min c = Some (Scalar (hd lu)) \<and> valid_max c = Some (Scalar (last lu))
    \<and> valid_min d = Some (Scalar (hd la)) \<and> valid_max d = Some (Scalar (last la)))"
  by (rule conjI [OF example_write V_file_valid_range [OF example_write]])

text \<open>
  C9 (\<open>write\<close> only reads the store).  When \<open>write\<close> returns, the instance is what it was
  before the call, attribute by attribute (\<open>x\<close>, \<open>y\<close>, \<open>depth\<close>, \<open>time_counter\<close>, the four
  coordinate attributes, \<open>U\<close>, \<open>V\<close>), and so is its particle list.
\<close>

theorem write_leaves_store_unchanged:
  assumes "NEMOGrid_write w self filename = Inr (w', self')"
  shows "self' = self \<and> particles w' self' = particles w self"
  using NEMOGrid_write_D [OF assms] by (auto simp: particles_def)

theorem write_leaves_store_unchanged_witness:
  "NEMOGrid_write example_world example_grid ''out'' = Inr (example_written, example_grid)
   \<and> example_grid = example_grid
   \<and> particles example_written example_grid = particles example_world example_grid"
  using write_leaves_store_unchanged [OF example_write] example_write by simp

lemma add_particle_reaches_every_instance:
  "particles (fst (add_particle w self p)) other = particles w other @ [p]"
  by (simp add: add_particle_def particles_def)

text \<open>
  C8 (particle ownership).  The code does not give each instance a list of its own: a
  particle attached through one instance is in the list of every other instance as well.
\<close>

theorem add_particle_leaks_example:
  "NEMOGrid_init example_world None = Inr (example_world, class_defaults)
   \<and> particles example_world class_defaults = []
   \<and> particles (fst (add_particle example_world example_grid (7::nat))) class_defaults = [7]"
  by (simp add: NEMOGrid_init_def add_particle_def particles_def example_world_def)




section \<open>The claims about reading\<close>






section \<open>Proofs: the interpolating surface at its nodes\<close>

lemma fless_Fin: "fless a b \<Longrightarrow> \<exists>r s. a = Fin r \<and> b = Fin s \<and> r < s"
  by (cases a; cases b) auto

lemma strictly_increasing_nth:
  "strictly_increasing ks \<Longrightarrow> i < j \<Longrightarrow> j < length ks \<Longrightarrow> fless (ks ! i) (ks ! j)"
  by (simp add: strictly_increasing_def sorted_wrt_iff_nth_less)

lemma strictly_increasing_finite:
  assumes "strictly_increasing ks" "2 \<le> length ks" "i < length ks"
  shows "\<exists>r. ks ! i = Fin r"
proof (cases "i = 0")
  case True
  with assms strictly_increasing_nth [of ks 0 1] show ?thesis
    by (auto dest!: fless_Fin)
next
  case False
  with assms strictly_increasing_nth [of ks 0 i] show ?thesis
    by (auto dest!: fless_Fin)
qed

lemma find_cell_node:
  assumes si: "strictly_increasing ks" and len: "2 \<le> length ks" and i: "i < length ks"
  shows "find_cell ks (ks ! i) = min i (length ks - 2)"
proof -
  have nth_tl: "tl ks ! m = ks ! Suc m" if "m < length (tl ks)" for m
    using that by (simp add: nth_tl)
  have "takeWhile (\<lambda>k. fle k (ks ! i)) (tl ks) = take i (tl ks)"
  proof (rule takeWhile_eq_take_P_nth)
    fix m assume m: "m < i" "m < length (tl ks)"
    show "fle (tl ks ! m) (ks ! i)"
    proof (cases "Suc m = i")
      case True
      with strictly_increasing_finite [OF si len i] nth_tl [OF m(2)] show ?thesis by auto
    next
      case False
      with m have "Suc m < i" by simp
      from fless_Fin [OF strictly_increasing_nth [OF si this i]] nth_tl [OF m(2)]
      show ?thesis by auto
    qed
  next
    assume m: "i < length (tl ks)"
    then have "Suc i < length ks" by simp
    then have "fless (ks ! i) (ks ! Suc i)"
      by (intro strictly_increasing_nth [OF si]) simp_all
    from fless_Fin [OF this] nth_tl [OF m]
    show "\<not> fle (tl ks ! i) (ks ! i)" by auto
  qed
  then show ?thesis
    using i len by (simp add: find_cell_def min_def)
qed

lemma node_weight:
  assumes si: "strictly_increasing ks" and len: "2 \<le> length ks" and i: "i < length ks"
  defines "c \<equiv> find_cell ks (ks ! i)"
  shows "Suc c < length ks \<and>
      ((c = i \<and> fdiv (fsub (ks ! i) (ks ! c)) (fsub (ks ! Suc c) (ks ! c)) = Fin 0)
     \<or> (Suc c = i \<and> fdiv (fsub (ks ! i) (ks ! c)) (fsub (ks ! Suc c) (ks ! c)) = Fin 1))"
proof -
  have c: "c = min i (length ks - 2)"
    unfolding c_def by (rule find_cell_node [OF si len i])
  then have sc: "Suc c < length ks" using len by (auto simp: min_def)
  from fless_Fin [OF strictly_increasing_nth [OF si _ sc, of c]]
  obtain r s where rs: "ks ! c = Fin r" "ks ! Suc c = Fin s" "r < s" by auto
  show ?thesis
  proof (cases "i \<le> length ks - 2")
    case True
    with c have "c = i" by simp
    with rs sc show ?thesis by simp
  next
    case False
    with c i have "Suc c = i" by (auto simp: min_def)
    with rs sc show ?thesis by auto
  qed
qed

lemma zero_nan_Fin: "\<exists>r. zero_nan v = Fin r"
  by (cases v) (simp_all add: zero_nan_def)

lemma spline_exact_at_nodes:
  assumes b: "RectBivariateSpline (Arr1 xs) (Arr1 ys) (nan_to_zero (Arr2 field)) = Inr sp"
    and i: "i < length xs" and j: "j < length ys"
  shows "sample sp (xs ! i) (ys ! j) = zero_nan (field ! i ! j)"
proof -
  from b have sp: "sp = \<lparr>knots_x = xs, knots_y = ys, coefs = map (map zero_nan) field\<rparr>"
    and len: "2 \<le> length xs" "2 \<le> length ys"
    and si: "strictly_increasing xs" "strictly_increasing ys"
    and shape: "length field = length xs" "\<forall>r \<in> set field. length r = length ys"
    by (auto simp: RectBivariateSpline_def split: if_splits)
  define c where "c = find_cell xs (xs ! i)"
  define d where "d = find_cell ys (ys ! j)"
  define t where "t = fdiv (fsub (xs ! i) (xs ! c)) (fsub (xs ! Suc c) (xs ! c))"
  define u where "u = fdiv (fsub (ys ! j) (ys ! d)) (fsub (ys ! Suc d) (ys ! d))"
  from node_weight [OF si(1) len(1) i] have wc:
    "Suc c < length xs" "(c = i \<and> t = Fin 0) \<or> (Suc c = i \<and> t = Fin 1)"
    by (auto simp: c_def t_def)
  from node_weight [OF si(2) len(2) j] have wd:
    "Suc d < length ys" "(d = j \<and> u = Fin 0) \<or> (Suc d = j \<and> u = Fin 1)"
    by (auto simp: d_def u_def)
  have cell: "coefs sp ! p ! q = zero_nan (field ! p ! q)" if "p < length xs" "q < length ys" for p q
    using that shape by (simp add: sp)
  obtain z00 z01 z10 z11 where z:
    "zero_nan (field ! c ! d) = Fin z00" "zero_nan (field ! c ! Suc d) = Fin z01"
    "zero_nan (field ! Suc c ! d) = Fin z10" "zero_nan (field ! Suc c ! Suc d) = Fin z11"
    using zero_nan_Fin by metis
  have k: "knots_x sp = xs" "knots_y sp = ys"
    by (simp_all add: sp)
  have corner: "coefs sp ! c ! d = Fin z00" "coefs sp ! c ! Suc d = Fin z01"
    "coefs sp ! Suc c ! d = Fin z10" "coefs sp ! Suc c ! Suc d = Fin z11"
    using wc(1) wd(1) z by (simp_all add: cell)
  have "sample sp (xs ! i) (ys ! j) =
      fadd (fadd (fmul (fmul (fsub (Fin 1) t) (fsub (Fin 1) u)) (Fin z00))
                 (fmul (fmul (fsub (Fin 1) t) u) (Fin z01)))
           (fadd (fmul (fmul t (fsub (Fin 1) u)) (Fin z10)) (fmul (fmul t u) (Fin z11)))"
    unfolding sample_def Let_def k c_def [symmetric] d_def [symmetric] corner
      t_def [symmetric] u_def [symmetric] ..
  with wc(2) wd(2) z show ?thesis by auto
qed

lemma zero_nan_if: "zero_nan v = (if v = NaN then Fin 0 else v)"
  by (cases v) (simp_all add: zero_nan_def)

lemma init_from_file_Inr_E:
  assumes "init_from_file w name = Inr g"
  obtains du dv lonu latu lonv latv vu vv uf vf ax ay bx bz iu iv where
    "files w (name @ ''_U'') = Some du" "files w (name @ ''_V'') = Some dv"
    "getvar du ''nav_lon'' = Inr lonu" "getvar du ''nav_lat'' = Inr latu"
    "getvar dv ''nav_lon'' = Inr lonv" "getvar dv ''nav_lat'' = Inr latv"
    "getvar du ''vozocrtx'' = Inr vu" "slice00 (var_data vu) = Inr uf"
    "getvar dv ''vomecrty'' = Inr vv" "slice00 (var_data vv) = Inr vf"
    "col0 (var_data latu) = Inr ax" "row0 (var_data lonu) = Inr ay"
    "RectBivariateSpline ax ay (nan_to_zero uf) = Inr iu"
    "col0 (var_data latv) = Inr bx" "row0 (var_data lonv) = Inr bz"
    "RectBivariateSpline bx bz (nan_to_zero vf) = Inr iv"
    "g = class_defaults\<lparr>
              dset_u := Some du, dset_v := Some dv,
              lon_u := Some (var_data lonu), lat_u := Some (var_data latu),
              lon_v := Some (var_data lonv), lat_v := Some (var_data latv),
              U := Some (nan_to_zero uf), V := Some (nan_to_zero vf),
              interp_u := Some iu, interp_v := Some iv\<rparr>"
  using assms
  by (auto simp: init_from_file_def bind_err_eq_Inr open_read_def Let_def split: option.splits)

lemma slice00_Arr2: "slice00 a = Inr b \<Longrightarrow> \<exists>rows. b = Arr2 rows"
  by (cases a) (auto split: if_splits)

lemma RectBivariateSpline_lines:
  "RectBivariateSpline a b c = Inr sp \<Longrightarrow> \<exists>xs ys. a = Arr1 xs \<and> b = Arr1 ys"
  by (auto simp: RectBivariateSpline_def split: ndarray.splits if_splits)

text \<open>
  C3 (interpolation at the lattice nodes).  In an instance constructed from files, each of
  the two interpolators, sampled at a node \<open>(lat[i], lon[j])\<close> of its own lattice (column 0
  of \<open>nav_lat\<close>, row 0 of \<open>nav_lon\<close>), returns the field value at \<open>(i, j)\<close> as the file has it,
  and \<open>0.0\<close> where the file has NaN.  The interpolating surface is the bilinear one of the
  specification, on exact numbers.
\<close>

theorem interpolation_at_lattice_nodes:
  assumes "init_from_file w name = Inr g"
  shows "\<exists>du dv vu vv uf vf latu lonu latv lonv ulat ulon vlat vlon su sv.
      files w (name @ ''_U'') = Some du \<and> files w (name @ ''_V'') = Some dv
    \<and> getvar du ''vozocrtx'' = Inr vu \<and> slice00 (var_data vu) = Inr (Arr2 uf)
    \<and> getvar dv ''vomecrty'' = Inr vv \<and> slice00 (var_data vv) = Inr (Arr2 vf)
    \<and> lat_u g = Some latu \<and> col0 latu = Inr (Arr1 ulat)
    \<and> lon_u g = Some lonu \<and> row0 lonu = Inr (Arr1 ulon)
    \<and> lat_v g = Some latv \<and> col0 latv = Inr (Arr1 vlat)
    \<and> lon_v g = Some lonv \<and> row0 lonv = Inr (Arr1 vlon)
    \<and> interp_u g = Some su \<and> interp_v g = Some sv
    \<and> (\<forall>i < length ulat. \<forall>j < length ulon.
          sample su (ulat ! i) (ulon ! j) = (if uf ! i ! j = NaN then Fin 0 else uf ! i ! j))
    \<and> (\<forall>i < length vlat. \<forall>j < length vlon.
          sample sv (vlat ! i) (vlon ! j) = (if vf ! i ! j = NaN then Fin 0 else vf ! i ! j))"
  using assms
proof (rule init_from_file_Inr_E)
  fix du dv lonu latu lonv latv vu vv uf vf ax ay bx bz iu iv
  assume f: "files w (name @ ''_U'') = Some du" "files w (name @ ''_V'') = Some dv"
    and v: "getvar du ''vozocrtx'' = Inr vu" "slice00 (var_data vu) = Inr uf"
      "getvar dv ''vomecrty'' = Inr vv" "slice00 (var_data vv) = Inr vf"
    and c: "col0 (var_data latu) = Inr ax" "row0 (var_data lonu) = Inr ay"
      "col0 (var_data latv) = Inr bx" "row0 (var_data lonv) = Inr bz"
    and s: "RectBivariateSpline ax ay (nan_to_zero uf) = Inr iu"
      "RectBivariateSpline bx bz (nan_to_zero vf) = Inr iv"
    and geq: "g = class_defaults\<lparr>
              dset_u := Some du, dset_v := Some dv,
              lon_u := Some (var_data lonu), lat_u := Some (var_data latu),
              lon_v := Some (var_data lonv), lat_v := Some (var_data latv),
              U := Some (nan_to_zero uf), V := Some (nan_to_zero vf),
              interp_u := Some iu, interp_v := Some iv\<rparr>"
  have g: "lat_u g = Some (var_data latu)" "lon_u g = Some (var_data lonu)"
    "lat_v g = Some (var_data latv)" "lon_v g = Some (var_data lonv)"
    "interp_u g = Some iu" "interp_v g = Some iv"
    by (simp_all add: geq)
  from slice00_Arr2 [OF v(2)] slice00_Arr2 [OF v(4)] obtain urows vrows where
    r: "uf = Arr2 urows" "vf = Arr2 vrows" by blast
  from RectBivariateSpline_lines [OF s(1)] RectBivariateSpline_lines [OF s(2)]
  obtain ulat ulon vlat vlon where
    l: "ax = Arr1 ulat" "ay = Arr1 ulon" "bx = Arr1 vlat" "bz = Arr1 vlon" by blast
  have su: "sample iu (ulat ! i) (ulon ! j) = (if urows ! i ! j = NaN then Fin 0 else urows ! i ! j)"
    if "i < length ulat" "j < length ulon" for i j
    using spline_exact_at_nodes [OF s(1) [unfolded l r] that] by (simp add: zero_nan_if)
  have sv: "sample iv (vlat ! i) (vlon ! j) = (if vrows ! i ! j = NaN then Fin 0 else vrows ! i ! j)"
    if "i < length vlat" "j < length vlon" for i j
    using spline_exact_at_nodes [OF s(2) [unfolded l r] that] by (simp add: zero_nan_if)
  show ?thesis
    using f v c g su sv unfolding l r by blast
qed

lemma example_init:
  "init_from_file example_written ''out'' = Inr example_read"
  by (simp add: init_from_file_def open_read_def getvar_def example_written_def example_world_def
      example_U_def example_V_def example_read_def RectBivariateSpline_def strictly_increasing_def
      zero_nan_def class_defaults_def)

theorem interpolation_at_lattice_nodes_witness:
  "init_from_file example_written ''out'' = Inr example_read
   \<and> (\<exists>du dv vu vv uf vf latu lonu latv lonv ulat ulon vlat vlon su sv.
      files example_written (''out'' @ ''_U'') = Some du
    \<and> files example_written (''out'' @ ''_V'') = Some dv
    \<and> getvar du ''vozocrtx'' = Inr vu \<and> slice00 (var_data vu) = Inr (Arr2 uf)
    \<and> getvar dv ''vomecrty'' = Inr vv \<and> slice00 (var_data vv) = Inr (Arr2 vf)
    \<and> lat_u example_read = Some latu \<and> col0 latu = Inr (Arr1 ulat)
    \<and> lon_u example_read = Some lonu \<and> row0 lonu = Inr (Arr1 ulon)
    \<and> lat_v example_read = Some latv \<and> col0 latv = Inr (Arr1 vlat)
    \<and> lon_v example_read = Some lonv \<and> row0 lonv = Inr (Arr1 vlon)
    \<and> interp_u example_read = Some su \<and> interp_v example_read = Some sv
    \<and> (\<forall>i < length ulat. \<forall>j < length ulon.
          sample su (ulat ! i) (ulon ! j) = (if uf ! i ! j = NaN then Fin 0 else uf ! i ! j))
    \<and> (\<forall>i < length vlat. \<forall>j < length vlon.
          sample sv (vlat ! i) (vlon ! j) = (if vf ! i ! j = NaN then Fin 0 else vf ! i ! j)))"
  by (rule conjI [OF example_init interpolation_at_lattice_nodes [OF example_init]])

lemma example_samples:
  "sample \<lparr>knots_x = [Fin 0, Fin 2, Fin 4], knots_y = [Fin 1, Fin 3],
           coefs = [[Fin 2, Fin 2], [Fin 0, Fin 2], [Fin 2, Fin 2]]\<rparr> (Fin 2) (Fin 1) = Fin 0"
  "sample \<lparr>knots_x = [Fin 0, Fin 2, Fin 4], knots_y = [Fin 1, Fin 3],
           coefs = [[Fin 2, Fin 2], [Fin 0, Fin 2], [Fin 2, Fin 2]]\<rparr> (Fin 4) (Fin 3) = Fin 2"
  "sample \<lparr>knots_x = [Fin 0, Fin 2, Fin 4], knots_y = [Fin 1, Fin 3],
           coefs = [[Fin 2, Fin 2], [Fin 0, Fin 2], [Fin 2, Fin 2]]\<rparr> (Fin 1) (Fin 1) = Fin 1"
  by (simp_all add: sample_def find_cell_def)

section \<open>Writing, then reading back\<close>












end
